theory Spec2Isabelle
  imports Main "HOL-Library.Sublist"
begin

section \<open>Strings as Go has them\<close>

text \<open>
  A Go string is a sequence of bytes; \<open>len\<close> counts bytes and slicing cuts at byte
  offsets. Both are read here on \<^typ>\<open>string\<close> (a list of 8-bit characters) with
  \<^const>\<open>length\<close>, \<^const>\<open>take\<close> and \<^const>\<open>drop\<close>. Go's \<open>int\<close> is read as
  \<^typ>\<open>int\<close>: every counter of the program is bounded by the number of bytes held in
  memory, far below the 64-bit range.
\<close>

definition newline :: char where
  "newline = CHR 0x0A"

text \<open>\<open>strings.HasPrefix(s, p)\<close>.\<close>

definition HasPrefix :: "string \<Rightarrow> string \<Rightarrow> bool" where
  "HasPrefix s p = prefix p s"

text \<open>
  \<open>strings.Split(s, sep)\<close> for a one-byte separator: the pieces between the
  separators, so always at least one piece (\<open>Split("", "\n")\<close> is \<open>[""]\<close>).
\<close>

fun Split :: "string \<Rightarrow> char \<Rightarrow> string list" where
  "Split [] sep = [[]]"
| "Split (c # cs) sep =
     (if c = sep then [] # Split cs sep
      else (case Split cs sep of
              [] \<Rightarrow> [[c]]
            | piece # pieces \<Rightarrow> (c # piece) # pieces))"

text \<open>The \<open>%d\<close> verb of \<open>fmt.Sprintf\<close>.\<close>

definition digit_char :: "nat \<Rightarrow> char" where
  "digit_char d = char_of (48 + d)"

fun digits :: "nat \<Rightarrow> string" where
  "digits n = (if n < 10 then [digit_char n] else digits (n div 10) @ [digit_char (n mod 10)])"

definition fmt_d :: "int \<Rightarrow> string" where
  "fmt_d i = (if i < 0 then CHR ''-'' # digits (nat (- i)) else digits (nat i))"

section \<open>Data model (package types)\<close>

text \<open>
  The structs of package \<open>types\<close> as records. Isabelle wants field names unique
  across records, so a field whose name a second struct reuses carries a short prefix
  (\<open>ff_Filepath\<close> of \<open>FocusFileInfo\<close>, \<open>ds_MaxDiffSize\<close> of \<open>DiffSummary\<close>).
  A nil slice and an empty slice are both the empty list.
\<close>

record LineChange =
  lc_Type :: string
  lc_Content :: string

record ChangeInfo =
  Action :: string
  Filepath :: string
  OldPath :: string
  NewPath :: string
  Additions :: int
  Deletions :: int
  DiffContent :: string
  Extension :: string
  FileSize :: int
  IsBinary :: bool
  AdditionsList :: "LineChange list"
  DeletionsList :: "LineChange list"
  IsFocus :: bool
  FocusReason :: string

record FocusFileInfo =
  ff_Filepath :: string
  ff_Action :: string
  Reason :: string
  MatchCount :: int
  MatchLines :: "string list"

record StatsInfo =
  TotalAdditions :: int
  TotalDeletions :: int
  TotalFiles :: int
  AddFiles :: int
  DeleteFiles :: int
  ModifyFiles :: int
  RenameFiles :: int
  CopyFiles :: int
  BinaryFiles :: int

record FocusStats =
  TotalFocusFiles :: int
  AddFocusFiles :: int
  ModifyFocusFiles :: int
  DeleteFocusFiles :: int
  MatchPatternFiles :: int
  MatchContentFiles :: int

record DiffSummary =
  TotalDiffSize :: int
  DiffTooLarge :: bool
  ds_MaxDiffSize :: int
  FullDiff :: string

text \<open>The zero values \<open>types.ChangeInfo{}\<close>, \<open>types.StatsInfo{}\<close> and so on.\<close>

definition zero_ChangeInfo :: ChangeInfo where
  "zero_ChangeInfo =
     \<lparr>Action = [], Filepath = [], OldPath = [], NewPath = [], Additions = 0, Deletions = 0,
      DiffContent = [], Extension = [], FileSize = 0, IsBinary = False, AdditionsList = [],
      DeletionsList = [], IsFocus = False, FocusReason = []\<rparr>"

definition zero_StatsInfo :: StatsInfo where
  "zero_StatsInfo =
     \<lparr>TotalAdditions = 0, TotalDeletions = 0, TotalFiles = 0, AddFiles = 0, DeleteFiles = 0,
      ModifyFiles = 0, RenameFiles = 0, CopyFiles = 0, BinaryFiles = 0\<rparr>"

definition zero_FocusStats :: FocusStats where
  "zero_FocusStats =
     \<lparr>TotalFocusFiles = 0, AddFocusFiles = 0, ModifyFocusFiles = 0, DeleteFocusFiles = 0,
      MatchPatternFiles = 0, MatchContentFiles = 0\<rparr>"

definition zero_DiffSummary :: DiffSummary where
  "zero_DiffSummary = \<lparr>TotalDiffSize = 0, DiffTooLarge = False, ds_MaxDiffSize = 0, FullDiff = []\<rparr>"

text \<open>\<open>GetFileExtension\<close>: the text after the last dot, empty when there is no dot.\<close>

definition GetFileExtension :: "string \<Rightarrow> string" where
  "GetFileExtension filename =
     (let parts = Split filename (CHR ''.'') in
      if 1 < length parts then last parts else [])"

definition binaryExtensions :: "string list" where
  "binaryExtensions =
     [''exe'', ''dll'', ''so'', ''dylib'',
      ''bin'', ''class'', ''jar'', ''war'',
      ''png'', ''jpg'', ''jpeg'', ''gif'',
      ''bmp'', ''ico'', ''pdf'', ''doc'',
      ''docx'', ''xls'', ''xlsx'', ''ppt'',
      ''pptx'', ''zip'', ''tar'', ''gz'',
      ''7z'', ''rar'', ''mp3'', ''mp4'',
      ''avi'', ''mkv'', ''mov'', ''wav'',
      ''iso'', ''img'', ''dmg'', ''pkg'',
      ''o'', ''obj'', ''lib'', ''a'']"

text \<open>
  \<open>IsLikelyBinaryFile\<close> lowers the extension with \<open>strings.ToLower\<close> of the Go
  library, which follows the Unicode case tables. The library function is the argument
  \<open>ToLower\<close> here, and of every function that calls this one.
\<close>

definition IsLikelyBinaryFile :: "(string \<Rightarrow> string) \<Rightarrow> string \<Rightarrow> bool" where
  "IsLikelyBinaryFile ToLower filename =
     (ToLower (GetFileExtension filename) \<in> set binaryExtensions)"

text \<open>
  \<open>TruncateString\<close>: a string longer than \<open>maxLen\<close> bytes is cut to its first
  \<open>maxLen\<close> bytes and a 24-byte marker is put after them. The bound is a
  \<^typ>\<open>nat\<close>: the program's only call passes 100.
\<close>

definition truncated_marker :: string where
  "truncated_marker = newline # ''... [content truncated]''"

definition TruncateString :: "string \<Rightarrow> nat \<Rightarrow> string" where
  "TruncateString s maxLen = (if length s \<le> maxLen then s else take maxLen s @ truncated_marker)"

text \<open>\<open>Contains\<close>: linear search in a string slice.\<close>

fun Contains :: "string list \<Rightarrow> string \<Rightarrow> bool" where
  "Contains [] item = False"
| "Contains (s # slice) item = (if s = item then True else Contains slice item)"

section \<open>Configuration (package config)\<close>

record FocusConfig =
  Enable :: bool
  focus_AddFiles :: bool
  focus_ModifyFiles :: bool
  focus_DeleteFiles :: bool
  FilePatterns :: "string list"
  IgnorePatterns :: "string list"

text \<open>The fields of \<open>Config\<close> that the analysis reads.\<close>

record Config =
  MaxDiffSize :: int
  IncludeFullDiff :: bool
  ParseDiff :: bool
  Focus :: FocusConfig

section \<open>The diff text parser (parseDiffContent)\<close>

text \<open>The eight-way test that both parsing loops use to skip a file-header line.\<close>

definition is_diff_header :: "string \<Rightarrow> bool" where
  "is_diff_header line =
     (HasPrefix line ''diff --git'' \<or>
      HasPrefix line ''index '' \<or>
      HasPrefix line ''--- '' \<or>
      HasPrefix line ''+++ '' \<or>
      HasPrefix line ''new file mode'' \<or>
      HasPrefix line ''deleted file mode'' \<or>
      HasPrefix line ''rename from'' \<or>
      HasPrefix line ''rename to'')"

text \<open>
  The \<open>switch prefix\<close> of both loops: \<open>line\<close> is not empty, \<open>prefix = line[0:1]\<close>,
  \<open>content = line[1:]\<close>. A \<open>+\<close> line is appended to the additions unless its content
  starts with \<open>++ b/\<close>, a \<open>-\<close> line to the deletions unless its content starts with
  \<open>-- a/\<close>, any other line changes nothing.
\<close>

definition classify_line ::
  "string \<Rightarrow> LineChange list \<times> LineChange list \<Rightarrow> LineChange list \<times> LineChange list" where
  "classify_line line acc =
     (let pre = take 1 line; content = drop 1 line; additions = fst acc; deletions = snd acc in
      if pre = ''+'' then
        (if \<not> HasPrefix content ''++ b/''
         then (additions @ [\<lparr>lc_Type = ''add'', lc_Content = content\<rparr>], deletions)
         else acc)
      else if pre = ''-'' then
        (if \<not> HasPrefix content ''-- a/''
         then (additions, deletions @ [\<lparr>lc_Type = ''delete'', lc_Content = content\<rparr>])
         else acc)
      else acc)"

text \<open>The loop of the header-aware mode, with its flag \<open>inHunk\<close>.\<close>

fun hunk_loop ::
  "string list \<Rightarrow> bool \<Rightarrow> LineChange list \<times> LineChange list \<Rightarrow> LineChange list \<times> LineChange list" where
  "hunk_loop [] inHunk acc = acc"
| "hunk_loop (line # rest) inHunk acc =
     (if is_diff_header line then hunk_loop rest inHunk acc
      else if HasPrefix line ''@@'' then hunk_loop rest True acc
      else if inHunk \<and> 0 < length line then hunk_loop rest inHunk (classify_line line acc)
      else hunk_loop rest inHunk acc)"

text \<open>The loop of the headerless mode, with its flag \<open>skipHeader\<close>.\<close>

fun simple_loop ::
  "string list \<Rightarrow> bool \<Rightarrow> LineChange list \<times> LineChange list \<Rightarrow> LineChange list \<times> LineChange list" where
  "simple_loop [] skipHeader acc = acc"
| "simple_loop (line # rest) skipHeader acc =
     (if length line = 0 then simple_loop rest skipHeader acc
      else if is_diff_header line then simple_loop rest True acc
      else if skipHeader \<and> 0 < length line then simple_loop rest skipHeader (classify_line line acc)
      else simple_loop rest skipHeader acc)"

definition parseDiffContent :: "string \<Rightarrow> LineChange list \<times> LineChange list" where
  "parseDiffContent diffContent =
     (if diffContent = [] then ([], [])
      else
        (let lines = Split diffContent newline in
         if length lines < 3 then ([], [])
         else if list_ex (\<lambda>line. HasPrefix line ''@@'') lines
              then hunk_loop lines False ([], [])
              else simple_loop lines False ([], [])))"

section \<open>The focus classifier (package focus)\<close>

text \<open>
  A compiled \<open>*regexp.Regexp\<close> is read as its \<open>MatchString\<close> method, a predicate on
  strings; \<open>regexp.Compile\<close> is a parameter of \<open>compilePatterns\<close>. An \<open>error\<close> is
  the text its \<open>Error()\<close> method gives.
\<close>

datatype error = Error string

fun error_text :: "error \<Rightarrow> string" where
  "error_text (Error msg) = msg"

type_synonym regexp = "string \<Rightarrow> bool"

record CompiledPatterns =
  cp_FilePatterns :: "regexp list"
  cp_IgnorePatterns :: "regexp list"

fun compile_all :: "(string \<Rightarrow> error + regexp) \<Rightarrow> string \<Rightarrow> string list \<Rightarrow> error + regexp list" where
  "compile_all compile what [] = Inr []"
| "compile_all compile what (pattern # rest) =
     (case compile pattern of
        Inl err \<Rightarrow> Inl (Error (''failed to compile '' @ what @ '' pattern: '' @ pattern @
                              '', error: '' @ error_text err))
      | Inr re \<Rightarrow> (case compile_all compile what rest of
                     Inl err \<Rightarrow> Inl err
                   | Inr res \<Rightarrow> Inr (re # res)))"

definition compilePatterns :: "(string \<Rightarrow> error + regexp) \<Rightarrow> FocusConfig \<Rightarrow> error + CompiledPatterns" where
  "compilePatterns compile focusConfig =
     (case compile_all compile ''file'' (FilePatterns focusConfig) of
        Inl err \<Rightarrow> Inl err
      | Inr fps \<Rightarrow>
          (case compile_all compile ''ignore'' (IgnorePatterns focusConfig) of
             Inl err \<Rightarrow> Inl err
           | Inr ips \<Rightarrow> Inr \<lparr>cp_FilePatterns = fps, cp_IgnorePatterns = ips\<rparr>))"

text \<open>
  \<open>Init\<close> gives the new value of the package variable \<open>compiledPatterns\<close>, or the
  error. With focus disabled it returns without compiling and the variable keeps its
  nil, which is \<open>None\<close> here.
\<close>

definition Init :: "Config \<Rightarrow> (string \<Rightarrow> error + regexp) \<Rightarrow> error + CompiledPatterns option" where
  "Init cfg compile =
     (if \<not> Enable (Focus cfg) then Inr None
      else (case compilePatterns compile (Focus cfg) of
              Inl err \<Rightarrow> Inl (Error (''failed to compile regular expressions: '' @ error_text err))
            | Inr compiled \<Rightarrow> Inr (Some compiled)))"

fun isIgnoredByFilePatterns :: "string \<Rightarrow> regexp list \<Rightarrow> bool" where
  "isIgnoredByFilePatterns filepath [] = False"
| "isIgnoredByFilePatterns filepath (pattern # patterns) =
     (if pattern filepath then True else isIgnoredByFilePatterns filepath patterns)"

fun isLineIgnored :: "string \<Rightarrow> regexp list \<Rightarrow> bool" where
  "isLineIgnored content [] = False"
| "isLineIgnored content (pattern # patterns) =
     (if pattern content then True else isLineIgnored content patterns)"

text \<open>The loop that sets \<open>isTargetFile\<close>.\<close>

fun isTargetFile :: "string \<Rightarrow> regexp list \<Rightarrow> bool" where
  "isTargetFile filepath [] = False"
| "isTargetFile filepath (pattern # patterns) =
     (if pattern filepath then True else isTargetFile filepath patterns)"

text \<open>
  The two content loops of the modify branch share their body; the pair is
  \<open>(matchedLines, matchCount)\<close>.
\<close>

fun match_loop :: "regexp list \<Rightarrow> LineChange list \<Rightarrow> string list \<times> int \<Rightarrow> string list \<times> int" where
  "match_loop ignore [] acc = acc"
| "match_loop ignore (line # rest) acc =
     (let matchedLines = fst acc; matchCount = snd acc in
      if \<not> isLineIgnored (lc_Content line) ignore then
        (let lineSummary = TruncateString (lc_Content line) 100 in
         match_loop ignore rest
           (if 0 < length lineSummary \<and> \<not> Contains matchedLines lineSummary
            then matchedLines @ [lineSummary] else matchedLines,
            matchCount + 1))
      else match_loop ignore rest acc)"

definition modify_reason :: "int \<Rightarrow> string" where
  "modify_reason matchCount =
     ''Content doesn'' @ [CHR 0x27] @ ''t match ignore patterns, match count: '' @ fmt_d matchCount"

text \<open>
  \<open>CheckFocusChange\<close> returns the focus record (\<open>None\<close> for \<open>nil, false\<close>) and the
  change as the call leaves it behind its pointer. The pattern set is the package
  variable \<open>compiledPatterns\<close>, here an argument; the function reads it only after its
  \<open>Enable\<close> test.
\<close>

definition CheckFocusChange ::
  "Config \<Rightarrow> CompiledPatterns \<Rightarrow> ChangeInfo \<Rightarrow> FocusFileInfo option \<times> ChangeInfo" where
  "CheckFocusChange cfg compiledPatterns change =
     (if \<not> Enable (Focus cfg) then (None, change)
      else if isIgnoredByFilePatterns (Filepath change) (cp_IgnorePatterns compiledPatterns)
        then (None, change)
      else if \<not> isTargetFile (Filepath change) (cp_FilePatterns compiledPatterns)
        then (None, change)
      else
        (let focusFile = \<lparr>ff_Filepath = Filepath change, ff_Action = Action change,
                           Reason = [], MatchCount = 0, MatchLines = []\<rparr> in
         if focus_AddFiles (Focus cfg) \<and> Action change = ''add'' then
           (Some (focusFile\<lparr>Reason := ''New file''\<rparr>),
            change\<lparr>IsFocus := True, FocusReason := ''New file''\<rparr>)
         else if focus_DeleteFiles (Focus cfg) \<and> Action change = ''delete'' then
           (Some (focusFile\<lparr>Reason := ''Deleted file''\<rparr>),
            change\<lparr>IsFocus := True, FocusReason := ''Deleted file''\<rparr>)
         else if focus_ModifyFiles (Focus cfg) \<and> Action change = ''modify'' then
           (let ignore = cp_IgnorePatterns compiledPatterns;
                acc1 = match_loop ignore (AdditionsList change) ([], 0);
                acc2 = match_loop ignore (DeletionsList change) acc1;
                matchedLines = fst acc2;
                matchCount = snd acc2 in
            if 0 < matchCount then
              (Some (focusFile\<lparr>Reason := modify_reason matchCount, MatchCount := matchCount,
                                MatchLines := matchedLines\<rparr>),
               change\<lparr>IsFocus := True, FocusReason := modify_reason matchCount\<rparr>)
            else (None, change))
         else (None, change)))"

section \<open>What the repository library hands over\<close>

text \<open>
  The program reads the repository through go-git. Each library call the code makes is
  an input here, as the value the call returns (\<open>Inl\<close> its error).
  \<^item> An \<open>object.File\<close> has its \<open>Name\<close>, its \<open>Size\<close> and the outcome of \<open>Contents()\<close>.
  \<^item> An \<open>object.Tree\<close> has its hash, the files \<open>Files().ForEach\<close> visits and the error
    that ends the visit, if one does.
  \<^item> A \<open>diff.FilePatch\<close> has the paths of the two files \<open>Files()\<close> returns (\<open>None\<close> for
    nil) and its chunks, each a \<open>Type()\<close> and a \<open>Content()\<close>.
  \<^item> A commit has its hash, \<open>NumParents()\<close>, the outcomes of \<open>Tree()\<close>, of \<open>Parent(0)\<close>,
    of the parent's \<open>Tree()\<close>, and of \<open>parentTree.Patch(currentTree)\<close>.
\<close>

record File =
  Name :: string
  Size :: int
  Contents :: "error + string"

record Tree =
  tree_Hash :: string
  Files :: "File list"
  Files_err :: "error option"

datatype Operation = Equal | Add | Delete

record Chunk =
  chunk_Content :: string
  chunk_Type :: Operation

record FilePatch =
  fromFile :: "string option"
  toFile :: "string option"
  Chunks :: "Chunk list"

record Commit =
  Hash :: string
  NumParents :: nat
  commit_Tree :: "error + Tree"
  commit_Parent :: "error option"
  parent_Tree :: "error option"
  tree_Patch :: "error + FilePatch list"

text \<open>\<open>currentTree.File(path)\<close>: the file of that name, if the tree has one.\<close>

definition tree_File :: "Tree \<Rightarrow> string \<Rightarrow> File option" where
  "tree_File tree path = find (\<lambda>f. Name f = path) (Files tree)"

section \<open>The change aggregator (getCommitChanges)\<close>

text \<open>The variables that both loops of \<open>getCommitChanges\<close> update.\<close>

record walk =
  changes :: "ChangeInfo list"
  stats :: StatsInfo
  diffSummary :: DiffSummary
  totalDiffSize :: int
  fullDiff :: string

definition too_large_text :: "int \<Rightarrow> string" where
  "too_large_text diffSize = ''// Diff content too large ('' @ fmt_d diffSize @ '' bytes), truncated''"

subsection \<open>The initial commit\<close>

text \<open>
  The callback of \<open>tree.Files().ForEach\<close>. It returns the updated variables and, second,
  the last value of its local \<open>change\<close>, which ends with the callback: the slice got
  its copy of \<open>change\<close> at \<open>append\<close>, before the size test.
\<close>

definition root_file :: "Config \<Rightarrow> File \<Rightarrow> walk \<Rightarrow> walk \<times> ChangeInfo" where
  "root_file cfg f w =
     (let size = Size f;
          content = (case Contents f of Inl err \<Rightarrow> [] | Inr c \<Rightarrow> c);
          failed = isl (Contents f);
          diffContent =
            (case Contents f of
               Inl err \<Rightarrow> ''// Unable to read file content: '' @ error_text err @ [newline]
             | Inr c \<Rightarrow> ''+++ b/'' @ Name f @ [newline] @ ''@@ -0,0 +1,'' @
                        fmt_d (int (length (Split c newline))) @ '' @@'' @ [newline] @ c);
          stats1 = (if failed then (stats w)\<lparr>BinaryFiles := BinaryFiles (stats w) + 1\<rparr> else stats w);
          change = \<lparr>Action = ''add'', Filepath = Name f, OldPath = [], NewPath = [],
                    Additions = int (length (Split content newline)), Deletions = 0,
                    DiffContent = diffContent, Extension = GetFileExtension (Name f),
                    FileSize = size, IsBinary = failed, AdditionsList = [],
                    DeletionsList = [], IsFocus = False, FocusReason = []\<rparr>;
          change1 = (if ParseDiff cfg \<and> \<not> IsBinary change
                     then change\<lparr>AdditionsList := fst (parseDiffContent diffContent)\<rparr>
                     else change);
          changes1 = changes w @ [change1];
          stats2 = stats1\<lparr>AddFiles := AddFiles stats1 + 1\<rparr>;
          diffSize = int (length diffContent);
          totalDiffSize1 = totalDiffSize w + diffSize;
          change2 = (if MaxDiffSize cfg < diffSize
                     then change1\<lparr>DiffContent := too_large_text diffSize\<rparr> else change1);
          diffSummary1 = (if MaxDiffSize cfg < diffSize
                          then (diffSummary w)\<lparr>DiffTooLarge := True\<rparr> else diffSummary w)
      in (w\<lparr>changes := changes1, stats := stats2, diffSummary := diffSummary1,
            totalDiffSize := totalDiffSize1\<rparr>, change2))"

fun root_files :: "Config \<Rightarrow> File list \<Rightarrow> walk \<Rightarrow> walk" where
  "root_files cfg [] w = w"
| "root_files cfg (f # fs) w = root_files cfg fs (fst (root_file cfg f w))"

subsection \<open>A commit with a parent\<close>

text \<open>Lines 482 to 530: action, paths and the per-action counter.\<close>

definition patch_action :: "FilePatch \<Rightarrow> ChangeInfo \<times> StatsInfo \<Rightarrow> ChangeInfo \<times> StatsInfo" where
  "patch_action fp cs =
     (let change = fst cs; st = snd cs;
          fromPath = (case fromFile fp of None \<Rightarrow> [] | Some p \<Rightarrow> p);
          toPath = (case toFile fp of None \<Rightarrow> [] | Some p \<Rightarrow> p) in
      if fromFile fp = None \<and> toFile fp \<noteq> None then
        (change\<lparr>Action := ''add'', Filepath := toPath\<rparr>, st\<lparr>AddFiles := AddFiles st + 1\<rparr>)
      else if fromFile fp \<noteq> None \<and> toFile fp = None then
        (change\<lparr>Action := ''delete'', Filepath := fromPath\<rparr>, st\<lparr>DeleteFiles := DeleteFiles st + 1\<rparr>)
      else if fromFile fp \<noteq> None \<and> toFile fp \<noteq> None then
        (if fromPath \<noteq> toPath then
           (change\<lparr>Action := ''rename'', OldPath := fromPath, NewPath := toPath, Filepath := toPath\<rparr>,
            st\<lparr>RenameFiles := RenameFiles st + 1\<rparr>)
         else
           (change\<lparr>Action := ''modify'', Filepath := fromPath\<rparr>, st\<lparr>ModifyFiles := ModifyFiles st + 1\<rparr>))
      else (change, st))"

text \<open>Lines 543 to 567: the header written to \<open>diffContentBuilder\<close>.\<close>

definition diff_header :: "FilePatch \<Rightarrow> string" where
  "diff_header fp =
     (let fromPath = (case fromFile fp of None \<Rightarrow> [] | Some p \<Rightarrow> p);
          toPath = (case toFile fp of None \<Rightarrow> [] | Some p \<Rightarrow> p) in
      if fromFile fp = None \<and> toFile fp \<noteq> None then
        ''diff --git a/'' @ toPath @ '' b/'' @ toPath @ [newline] @
        ''new file mode 100644'' @ [newline] @
        ''--- /dev/null'' @ [newline] @
        ''+++ b/'' @ toPath @ [newline]
      else if fromFile fp \<noteq> None \<and> toFile fp = None then
        ''diff --git a/'' @ fromPath @ '' b/'' @ fromPath @ [newline] @
        ''deleted file mode 100644'' @ [newline] @
        ''--- a/'' @ fromPath @ [newline] @
        ''+++ /dev/null'' @ [newline]
      else if fromFile fp \<noteq> None \<and> toFile fp \<noteq> None then
        (if fromPath = toPath then
           ''diff --git a/'' @ fromPath @ '' b/'' @ toPath @ [newline] @
           ''--- a/'' @ fromPath @ [newline] @
           ''+++ b/'' @ toPath @ [newline]
         else
           ''diff --git a/'' @ fromPath @ '' b/'' @ toPath @ [newline] @
           ''rename from '' @ fromPath @ [newline] @
           ''rename to '' @ toPath @ [newline])
      else [])"

text \<open>
  Lines 571 to 577: the lines of a chunk, the empty piece after a final newline
  removed.
\<close>

definition chunk_lines :: "string \<Rightarrow> string list" where
  "chunk_lines content =
     (let lines = Split content newline in
      if 0 < length lines \<and> last lines = [] then butlast lines else lines)"

text \<open>The inner loops: every line that is not empty is written behind its marker.\<close>

fun write_lines :: "char \<Rightarrow> string list \<Rightarrow> string \<Rightarrow> string" where
  "write_lines marker [] builder = builder"
| "write_lines marker (line # rest) builder =
     (if line \<noteq> [] then write_lines marker rest (builder @ marker # line @ [newline])
      else write_lines marker rest builder)"

text \<open>
  The variables of the chunk loop: the builder, the two line counters of the file and
  the statistics.
\<close>

record chunk_walk =
  builder :: string
  additions :: int
  deletions :: int
  cw_stats :: StatsInfo

fun chunk_loop :: "Chunk list \<Rightarrow> chunk_walk \<Rightarrow> chunk_walk" where
  "chunk_loop [] cw = cw"
| "chunk_loop (chunk # rest) cw =
     (let lines = chunk_lines (chunk_Content chunk);
          lineCount = int (length lines) in
      case chunk_Type chunk of
        Add \<Rightarrow> chunk_loop rest
          (cw\<lparr>additions := additions cw + lineCount,
              cw_stats := (cw_stats cw)\<lparr>TotalAdditions := TotalAdditions (cw_stats cw) + lineCount\<rparr>,
              builder := write_lines (CHR ''+'') lines (builder cw)\<rparr>)
      | Delete \<Rightarrow> chunk_loop rest
          (cw\<lparr>deletions := deletions cw + lineCount,
              cw_stats := (cw_stats cw)\<lparr>TotalDeletions := TotalDeletions (cw_stats cw) + lineCount\<rparr>,
              builder := write_lines (CHR ''-'') lines (builder cw)\<rparr>)
      | Equal \<Rightarrow> chunk_loop rest cw)"

text \<open>The text \<open>diffContentBuilder.String()\<close> of one file patch.\<close>

definition file_diff :: "FilePatch \<Rightarrow> string" where
  "file_diff fp =
     builder (chunk_loop (Chunks fp)
       \<lparr>builder = diff_header fp, additions = 0, deletions = 0, cw_stats = zero_StatsInfo\<rparr>)"

text \<open>The body of the loop over \<open>patch.FilePatches()\<close>, lines 480 to 676.\<close>

definition patch_step :: "(string \<Rightarrow> string) \<Rightarrow> Config \<Rightarrow> Tree \<Rightarrow> FilePatch \<Rightarrow> walk \<Rightarrow> walk" where
  "patch_step ToLower cfg currentTree fp w =
     (let cs = patch_action fp (zero_ChangeInfo, stats w);
          filePath = Filepath (fst cs);
          change1 = (fst cs)\<lparr>Extension := GetFileExtension filePath\<rparr>;
          cw = chunk_loop (Chunks fp)
                 \<lparr>builder = diff_header fp, additions = 0, deletions = 0, cw_stats = snd cs\<rparr>;
          stats1 = cw_stats cw;
          change2 = change1\<lparr>Additions := additions cw, Deletions := deletions cw\<rparr>;
          fileDiff = builder cw;
          diffSize = int (length fileDiff)
      in
      if toFile fp \<noteq> None then
        (let change3 = (case tree_File currentTree filePath of
                          None \<Rightarrow> change2
                        | Some file \<Rightarrow> change2\<lparr>FileSize := Size file\<rparr>);
             change4 = change3\<lparr>IsBinary := IsLikelyBinaryFile ToLower filePath, DiffContent := fileDiff\<rparr>;
             stats2 = (if IsBinary change4 then stats1\<lparr>BinaryFiles := BinaryFiles stats1 + 1\<rparr>
                       else stats1);
             change5 = (if \<not> IsBinary change4 \<and> ParseDiff cfg
                        then change4\<lparr>AdditionsList := fst (parseDiffContent fileDiff),
                                     DeletionsList := snd (parseDiffContent fileDiff)\<rparr>
                        else change4);
             change6 = (if MaxDiffSize cfg < diffSize
                        then change5\<lparr>DiffContent := too_large_text diffSize\<rparr> else change5);
             diffSummary1 = (if MaxDiffSize cfg < diffSize
                             then (diffSummary w)\<lparr>DiffTooLarge := True\<rparr> else diffSummary w)
         in w\<lparr>changes := changes w @ [change6], stats := stats2, diffSummary := diffSummary1,
              totalDiffSize := totalDiffSize w + diffSize,
              fullDiff := (if IncludeFullDiff cfg
                           then fullDiff w @ fileDiff @ [newline, newline] else fullDiff w)\<rparr>)
      else if fromFile fp \<noteq> None then
        (let change3 = change2\<lparr>IsBinary := IsLikelyBinaryFile ToLower filePath\<rparr>;
             stats2 = (if IsBinary change3 then stats1\<lparr>BinaryFiles := BinaryFiles stats1 + 1\<rparr>
                       else stats1);
             change4 = (if \<not> IsBinary change3 \<and> ParseDiff cfg
                        then change3\<lparr>DeletionsList := snd (parseDiffContent fileDiff)\<rparr>
                        else change3);
             change5 = change4\<lparr>DiffContent := fileDiff\<rparr>
         in w\<lparr>changes := changes w @ [change5], stats := stats2,
              totalDiffSize := totalDiffSize w + diffSize,
              fullDiff := (if IncludeFullDiff cfg
                           then fullDiff w @ fileDiff @ [newline, newline] else fullDiff w)\<rparr>)
      else w\<lparr>changes := changes w @ [change2], stats := stats1\<rparr>)"

fun patch_steps :: "(string \<Rightarrow> string) \<Rightarrow> Config \<Rightarrow> Tree \<Rightarrow> FilePatch list \<Rightarrow> walk \<Rightarrow> walk" where
  "patch_steps ToLower cfg currentTree [] w = w"
| "patch_steps ToLower cfg currentTree (fp # fps) w =
     patch_steps ToLower cfg currentTree fps (patch_step ToLower cfg currentTree fp w)"

subsection \<open>getCommitChanges\<close>

text \<open>
  The four results of \<open>getCommitChanges\<close>: the changes, the statistics, the diff
  summary and the error (\<open>None\<close> for nil). An early return hands back the three values
  as they are at that point.
\<close>

definition start_walk :: "Config \<Rightarrow> walk" where
  "start_walk cfg =
     \<lparr>changes = [], stats = zero_StatsInfo,
      diffSummary = zero_DiffSummary\<lparr>ds_MaxDiffSize := MaxDiffSize cfg\<rparr>,
      totalDiffSize = 0, fullDiff = []\<rparr>"

definition give_up :: "walk \<Rightarrow> error \<Rightarrow> ChangeInfo list \<times> StatsInfo \<times> DiffSummary \<times> error option" where
  "give_up w err = (changes w, stats w, diffSummary w, Some err)"

definition getCommitChanges ::
  "(string \<Rightarrow> string) \<Rightarrow> Config \<Rightarrow> Commit \<Rightarrow> ChangeInfo list \<times> StatsInfo \<times> DiffSummary \<times> error option" where
  "getCommitChanges ToLower cfg commit =
     (let w0 = start_walk cfg in
      if NumParents commit = 0 then
        (case commit_Tree commit of
           Inl err \<Rightarrow> give_up w0 err
         | Inr tree \<Rightarrow>
             (let w1 = root_files cfg (Files tree) w0 in
              case Files_err tree of
                Some err \<Rightarrow> give_up w1 err
              | None \<Rightarrow>
                  (changes w1,
                   (stats w1)\<lparr>TotalFiles := int (length (changes w1))\<rparr>,
                   (diffSummary w1)\<lparr>TotalDiffSize := totalDiffSize w1\<rparr>,
                   None)))
      else
        (case commit_Parent commit of
           Some err \<Rightarrow> give_up w0 err
         | None \<Rightarrow>
        (case parent_Tree commit of
           Some err \<Rightarrow> give_up w0 err
         | None \<Rightarrow>
        (case commit_Tree commit of
           Inl err \<Rightarrow> give_up w0 err
         | Inr currentTree \<Rightarrow>
        (case tree_Patch commit of
           Inl err \<Rightarrow> give_up w0 err
         | Inr patches \<Rightarrow>
             (let w1 = patch_steps ToLower cfg currentTree patches w0;
                  diffSummary1 = (diffSummary w1)\<lparr>TotalDiffSize := totalDiffSize w1\<rparr>
              in (changes w1,
                  (stats w1)\<lparr>TotalFiles := int (length (changes w1))\<rparr>,
                  (if IncludeFullDiff cfg then diffSummary1\<lparr>FullDiff := fullDiff w1\<rparr>
                   else diffSummary1),
                  None)))))))"

section \<open>The commit report (GetCommit)\<close>

text \<open>
  A \<open>plumbing.Reference\<close> has its full name, its short name, the answers of \<open>IsBranch\<close>
  and \<open>IsTag\<close>, its hash and the outcome of \<open>repo.TagObject\<close> on that hash. A
  repository has the outcome of \<open>References()\<close> with the error that ends \<open>ForEach\<close>, if
  one does, and the outcome of the commit lookup of lines 43 to 109 (the commit, or the
  error \<open>GetCommit\<close> returns there).
\<close>

datatype TagLookup = Annotated string | ErrObjectNotFound | TagFailed error

record Reference =
  ref_Name :: string
  ref_Short :: string
  ref_IsBranch :: bool
  ref_IsTag :: bool
  ref_Hash :: string
  ref_TagObject :: TagLookup

record Repository =
  References :: "error + Reference list"
  References_err :: "error option"
  lookup_commit :: "error + Commit"

fun branches_loop :: "Reference list \<Rightarrow> string \<Rightarrow> string list \<Rightarrow> string list" where
  "branches_loop [] hash branches = branches"
| "branches_loop (ref # rest) hash branches =
     (if ref_IsBranch ref \<or> HasPrefix (ref_Name ref) ''refs/remotes/'' then
        (if ref_Hash ref = hash then branches_loop rest hash (branches @ [ref_Short ref])
         else branches_loop rest hash branches)
      else branches_loop rest hash branches)"

definition getBranchesContainingCommit :: "Repository \<Rightarrow> string \<Rightarrow> string list \<times> error option" where
  "getBranchesContainingCommit repo hash =
     (case References repo of
        Inl err \<Rightarrow> ([], Some err)
      | Inr refs \<Rightarrow> (branches_loop refs hash [], References_err repo))"

text \<open>
  The callback of the tag loop returns the error of \<open>TagObject\<close> when it is not
  \<open>ErrObjectNotFound\<close>, and that ends the loop.
\<close>

fun tags_loop :: "Reference list \<Rightarrow> string \<Rightarrow> error option \<Rightarrow> string list \<Rightarrow> string list \<times> error option" where
  "tags_loop [] hash iter_err tags = (tags, iter_err)"
| "tags_loop (ref # rest) hash iter_err tags =
     (if ref_IsTag ref then
        (case ref_TagObject ref of
           TagFailed err \<Rightarrow> (tags, Some err)
         | Annotated target \<Rightarrow>
             (if target = hash then tags_loop rest hash iter_err (tags @ [ref_Short ref])
              else tags_loop rest hash iter_err tags)
         | ErrObjectNotFound \<Rightarrow>
             (if ref_Hash ref = hash then tags_loop rest hash iter_err (tags @ [ref_Short ref])
              else tags_loop rest hash iter_err tags))
      else tags_loop rest hash iter_err tags)"

definition getTagsContainingCommit :: "Repository \<Rightarrow> string \<Rightarrow> string list \<times> error option" where
  "getTagsContainingCommit repo hash =
     (case References repo of
        Inl err \<Rightarrow> ([], Some err)
      | Inr refs \<Rightarrow> tags_loop refs hash (References_err repo) [])"

text \<open>
  The report. Of \<open>CommitInfo\<close> the fields below are kept; authorship, message, parent
  hashes and the two time stamps are copied from the commit or the clock and no change
  record depends on them.
\<close>

record CommitInfo =
  ci_Hash :: string
  ShortHash :: string
  Changes :: "ChangeInfo list"
  FocusFiles :: "FocusFileInfo list"
  TreeHash :: string
  FilesChanged :: "string list"
  ci_Stats :: StatsInfo
  ci_DiffSummary :: DiffSummary
  Branches :: "string list"
  Tags :: "string list"
  ci_FocusStats :: FocusStats

text \<open>
  The loop over \<open>changes\<close> in \<open>GetCommit\<close>. \<open>change\<close> points into the slice, so what
  \<open>CheckFocusChange\<close> writes lands in the list; \<open>fw_changes\<close> collects the elements as
  the loop leaves them.
\<close>

record focus_walk =
  fw_changes :: "ChangeInfo list"
  filesChanged :: "string list"
  focusFiles :: "FocusFileInfo list"
  focusStats :: FocusStats

definition count_focus :: "string \<Rightarrow> FocusStats \<Rightarrow> FocusStats" where
  "count_focus action fs =
     (let fs1 = fs\<lparr>TotalFocusFiles := TotalFocusFiles fs + 1\<rparr> in
      if action = ''add'' then
        fs1\<lparr>AddFocusFiles := AddFocusFiles fs1 + 1, MatchPatternFiles := MatchPatternFiles fs1 + 1\<rparr>
      else if action = ''modify'' then
        fs1\<lparr>ModifyFocusFiles := ModifyFocusFiles fs1 + 1, MatchContentFiles := MatchContentFiles fs1 + 1\<rparr>
      else if action = ''delete'' then
        fs1\<lparr>MatchPatternFiles := MatchPatternFiles fs1 + 1\<rparr>
      else fs1)"

fun focus_loop :: "Config \<Rightarrow> CompiledPatterns \<Rightarrow> ChangeInfo list \<Rightarrow> focus_walk \<Rightarrow> focus_walk" where
  "focus_loop cfg compiledPatterns [] fw = fw"
| "focus_loop cfg compiledPatterns (change # rest) fw =
     (let files1 = filesChanged fw @ [Filepath change];
          checked = CheckFocusChange cfg compiledPatterns change;
          change1 = snd checked in
      case fst checked of
        None \<Rightarrow> focus_loop cfg compiledPatterns rest
                  (fw\<lparr>fw_changes := fw_changes fw @ [change1], filesChanged := files1\<rparr>)
      | Some focusFile \<Rightarrow> focus_loop cfg compiledPatterns rest
                  (fw\<lparr>fw_changes := fw_changes fw @ [change1], filesChanged := files1,
                      focusFiles := focusFiles fw @ [focusFile],
                      focusStats := count_focus (Action change1) (focusStats fw)\<rparr>))"

text \<open>
  With focus disabled \<open>Init\<close> leaves \<open>compiledPatterns\<close> nil and \<open>CheckFocusChange\<close>
  returns before it reads the variable; the empty pattern set stands for that nil.
\<close>

definition patterns_of :: "CompiledPatterns option \<Rightarrow> CompiledPatterns" where
  "patterns_of cp = (case cp of None \<Rightarrow> \<lparr>cp_FilePatterns = [], cp_IgnorePatterns = []\<rparr> | Some p \<Rightarrow> p)"

definition wrap_error :: "string \<Rightarrow> error \<Rightarrow> error" where
  "wrap_error context err = Error (context @ '': '' @ error_text err)"

definition GetCommit ::
  "(string \<Rightarrow> string) \<Rightarrow> Config \<Rightarrow> (string \<Rightarrow> error + regexp) \<Rightarrow> error + Repository \<Rightarrow> error + CommitInfo" where
  "GetCommit ToLower cfg compile PlainOpen =
     (case PlainOpen of
        Inl err \<Rightarrow> Inl (wrap_error ''failed to open local repository'' err)
      | Inr repo \<Rightarrow>
     (case lookup_commit repo of
        Inl err \<Rightarrow> Inl err
      | Inr commit \<Rightarrow>
          (let found_b = getBranchesContainingCommit repo (Hash commit);
               branches = (if snd found_b \<noteq> None then [] else fst found_b);
               found_t = getTagsContainingCommit repo (Hash commit);
               tags = (if snd found_t \<noteq> None then [] else fst found_t)
           in
           case commit_Tree commit of
             Inl err \<Rightarrow> Inl (wrap_error ''failed to get tree object'' err)
           | Inr tree \<Rightarrow>
               (let got = getCommitChanges ToLower cfg commit;
                    failed = (snd (snd (snd got)) \<noteq> None);
                    changes0 = (if failed then [] else fst got);
                    stats0 = (if failed then zero_StatsInfo else fst (snd got));
                    diffSummary0 = (if failed then zero_DiffSummary else fst (snd (snd got)));
                    fw0 = \<lparr>fw_changes = [], filesChanged = [], focusFiles = [],
                           focusStats = zero_FocusStats\<rparr>;
                    fw = (case Init cfg compile of
                            Inl err \<Rightarrow> fw0\<lparr>fw_changes := changes0\<rparr>
                          | Inr cp \<Rightarrow> focus_loop cfg (patterns_of cp) changes0 fw0)
                in Inr \<lparr>ci_Hash = Hash commit, ShortHash = take 8 (Hash commit),
                        Changes = fw_changes fw, FocusFiles = focusFiles fw,
                        TreeHash = tree_Hash tree, FilesChanged = filesChanged fw,
                        ci_Stats = stats0, ci_DiffSummary = diffSummary0,
                        Branches = branches, Tags = tags,
                        ci_FocusStats = focusStats fw\<rparr>))))"

section \<open>Notions the properties are stated with\<close>

text \<open>
  The sum of the per-action file counters; a file patch with at least one of its two
  files; the number of
  file changes a commit hands to \<open>getCommitChanges\<close>, the files of its tree when it has
  no parent and the file patches against its first parent otherwise.
\<close>

definition action_sum :: "StatsInfo \<Rightarrow> int" where
  "action_sum st = AddFiles st + DeleteFiles st + ModifyFiles st + RenameFiles st + CopyFiles st"

definition has_side :: "FilePatch \<Rightarrow> bool" where
  "has_side fp = (fromFile fp \<noteq> None \<or> toFile fp \<noteq> None)"

definition file_changes :: "Commit \<Rightarrow> nat" where
  "file_changes commit =
     (if NumParents commit = 0
      then (case commit_Tree commit of Inl err \<Rightarrow> 0 | Inr tree \<Rightarrow> length (Files tree))
      else (case tree_Patch commit of Inl err \<Rightarrow> 0 | Inr patches \<Rightarrow> length patches))"

definition patches_have_a_side :: "Commit \<Rightarrow> bool" where
  "patches_have_a_side commit =
     (if NumParents commit = 0 then True
      else (case tree_Patch commit of Inl err \<Rightarrow> True | Inr patches \<Rightarrow> list_all has_side patches))"

text \<open>
  For the parser: the lines behind the first file-header line, and the additions and
  deletions that the lines of a list give when each line that is no header is read by
  its first character.
\<close>

definition after_first_header :: "string list \<Rightarrow> string list" where
  "after_first_header lines = drop 1 (dropWhile (\<lambda>line. \<not> is_diff_header line) lines)"

definition added_lines :: "string list \<Rightarrow> LineChange list" where
  "added_lines lines =
     map (\<lambda>line. \<lparr>lc_Type = ''add'', lc_Content = drop 1 line\<rparr>)
       (filter (\<lambda>line. take 1 line = ''+'' \<and> \<not> is_diff_header line) lines)"

definition removed_lines :: "string list \<Rightarrow> LineChange list" where
  "removed_lines lines =
     map (\<lambda>line. \<lparr>lc_Type = ''delete'', lc_Content = drop 1 line\<rparr>)
       (filter (\<lambda>line. take 1 line = ''-'' \<and> \<not> is_diff_header line) lines)"

text \<open>
  For the synthesizer: a text made of newline-terminated lines; the lines a chunk
  writes; the text lines of all chunks of one type, in order; the two paths of a patch
  and the lines of its header.
\<close>

definition unlines :: "string list \<Rightarrow> string" where
  "unlines ls = concat (map (\<lambda>l. l @ [newline]) ls)"

definition emitted :: "Chunk \<Rightarrow> string list" where
  "emitted c =
     (case chunk_Type c of
        Add \<Rightarrow> map ((#) (CHR ''+'')) (filter (\<lambda>l. l \<noteq> []) (chunk_lines (chunk_Content c)))
      | Delete \<Rightarrow> map ((#) (CHR ''-'')) (filter (\<lambda>l. l \<noteq> []) (chunk_lines (chunk_Content c)))
      | Equal \<Rightarrow> [])"

definition lines_of :: "Operation \<Rightarrow> Chunk list \<Rightarrow> string list" where
  "lines_of op cs =
     concat (map (\<lambda>c. chunk_lines (chunk_Content c)) (filter (\<lambda>c. chunk_Type c = op) cs))"

definition from_path :: "FilePatch \<Rightarrow> string" where
  "from_path fp = (case fromFile fp of None \<Rightarrow> [] | Some p \<Rightarrow> p)"

definition to_path :: "FilePatch \<Rightarrow> string" where
  "to_path fp = (case toFile fp of None \<Rightarrow> [] | Some p \<Rightarrow> p)"

definition header_lines :: "FilePatch \<Rightarrow> string list" where
  "header_lines fp =
     (if fromFile fp = None \<and> toFile fp \<noteq> None then
        [''diff --git a/'' @ to_path fp @ '' b/'' @ to_path fp, ''new file mode 100644'',
         ''--- /dev/null'', ''+++ b/'' @ to_path fp]
      else if fromFile fp \<noteq> None \<and> toFile fp = None then
        [''diff --git a/'' @ from_path fp @ '' b/'' @ from_path fp, ''deleted file mode 100644'',
         ''--- a/'' @ from_path fp, ''+++ /dev/null'']
      else if fromFile fp \<noteq> None \<and> toFile fp \<noteq> None then
        (if from_path fp = to_path fp then
           [''diff --git a/'' @ from_path fp @ '' b/'' @ to_path fp, ''--- a/'' @ from_path fp,
            ''+++ b/'' @ to_path fp]
         else
           [''diff --git a/'' @ from_path fp @ '' b/'' @ to_path fp, ''rename from '' @ from_path fp,
            ''rename to '' @ to_path fp])
      else [])"

section \<open>Sample inputs\<close>

text \<open>
  Concrete patterns, configurations and changes, for the theorems below that evaluate
  the program. \<open>ascii_ToLower\<close> is what \<open>strings.ToLower\<close> returns for a string of
  ASCII bytes, which every file name below is. \<open>ends_with lit\<close> is what a pattern
  \<open>.*lit$\<close> with a literal \<open>lit\<close> matches, \<open>has_substring lit\<close> what the literal
  pattern \<open>lit\<close> matches. \<open>submodule_commit\<close> changes one entry that is no file on
  either side, a submodule pointer: \<open>Files()\<close> of its file patch returns nil twice.
\<close>

definition ascii_ToLower :: "string \<Rightarrow> string" where
  "ascii_ToLower s =
     map (\<lambda>c. if 65 \<le> (of_char c :: nat) \<and> (of_char c :: nat) \<le> 90
              then char_of ((of_char c :: nat) + 32) else c) s"

definition ends_with :: "string \<Rightarrow> regexp" where
  "ends_with lit s = prefix (rev lit) (rev s)"

definition has_substring :: "string \<Rightarrow> regexp" where
  "has_substring lit s = list_ex (prefix lit) (suffixes s)"

definition sample_cfg :: Config where
  "sample_cfg =
     \<lparr>MaxDiffSize = 1048576, IncludeFullDiff = False, ParseDiff = True,
      Focus = \<lparr>Enable = True, focus_AddFiles = True, focus_ModifyFiles = True,
               focus_DeleteFiles = True, FilePatterns = [''.*[.]yaml$''],
               IgnorePatterns = [''digest'']\<rparr>\<rparr>"

definition sample_patterns :: CompiledPatterns where
  "sample_patterns =
     \<lparr>cp_FilePatterns = [ends_with ''.yaml''], cp_IgnorePatterns = [has_substring ''digest'']\<rparr>"

definition modified :: "string \<Rightarrow> string list \<Rightarrow> string list \<Rightarrow> ChangeInfo" where
  "modified path added removed =
     zero_ChangeInfo\<lparr>Action := ''modify'', Filepath := path,
       AdditionsList := map (\<lambda>c. \<lparr>lc_Type = ''add'', lc_Content = c\<rparr>) added,
       DeletionsList := map (\<lambda>c. \<lparr>lc_Type = ''delete'', lc_Content = c\<rparr>) removed\<rparr>"

definition sample_tree :: Tree where
  "sample_tree =
     \<lparr>tree_Hash = ''ac7a748a48b495212a87d544d7a6132e4a9d058a'',
      Files = [\<lparr>Name = ''new.yaml'', Size = 5, Contents = Inr ''a: 1\<newline>''\<rparr>,
               \<lparr>Name = ''config.yaml'', Size = 15, Contents = Inr ''severity: high\<newline>''\<rparr>,
               \<lparr>Name = ''docs/b.txt'', Size = 2, Contents = Inr ''b\<newline>''\<rparr>],
      Files_err = None\<rparr>"

definition sample_patches :: "FilePatch list" where
  "sample_patches =
     [\<lparr>fromFile = None, toFile = Some ''new.yaml'',
       Chunks = [\<lparr>chunk_Content = ''a: 1\<newline>'', chunk_Type = Add\<rparr>]\<rparr>,
      \<lparr>fromFile = Some ''old.yaml'', toFile = None,
       Chunks = [\<lparr>chunk_Content = ''x: 1\<newline>y: 2\<newline>'', chunk_Type = Delete\<rparr>]\<rparr>,
      \<lparr>fromFile = Some ''config.yaml'', toFile = Some ''config.yaml'',
       Chunks = [\<lparr>chunk_Content = ''id: 7\<newline>'', chunk_Type = Equal\<rparr>,
                 \<lparr>chunk_Content = ''severity: critical\<newline>'', chunk_Type = Delete\<rparr>,
                 \<lparr>chunk_Content = ''severity: high\<newline>'', chunk_Type = Add\<rparr>]\<rparr>,
      \<lparr>fromFile = Some ''b.txt'', toFile = Some ''docs/b.txt'', Chunks = []\<rparr>]"

definition sample_commit :: Commit where
  "sample_commit =
     \<lparr>Hash = ''18d7144648d7474cac9dee02b104bc78ce47fc3d'', NumParents = 1,
      commit_Tree = Inr sample_tree, commit_Parent = None, parent_Tree = None,
      tree_Patch = Inr sample_patches\<rparr>"


definition sample_compile :: "string \<Rightarrow> error + regexp" where
  "sample_compile pattern =
     (if pattern = ''.*[.]yaml$'' then Inr (ends_with ''.yaml'')
      else if pattern = ''digest'' then Inr (has_substring ''digest'')
      else Inl (Error ''error parsing regexp''))"

definition sample_refs :: "Reference list" where
  "sample_refs =
     [\<lparr>ref_Name = ''refs/heads/main'', ref_Short = ''main'', ref_IsBranch = True, ref_IsTag = False,
       ref_Hash = ''18d7144648d7474cac9dee02b104bc78ce47fc3d'', ref_TagObject = ErrObjectNotFound\<rparr>,
      \<lparr>ref_Name = ''refs/tags/v1'', ref_Short = ''v1'', ref_IsBranch = False, ref_IsTag = True,
       ref_Hash = ''18d7144648d7474cac9dee02b104bc78ce47fc3d'', ref_TagObject = ErrObjectNotFound\<rparr>]"

definition delete_commit :: Commit where
  "delete_commit =
     \<lparr>Hash = ''18d7144648d7474cac9dee02b104bc78ce47fc3d'', NumParents = 1,
      commit_Tree = Inr sample_tree, commit_Parent = None, parent_Tree = None,
      tree_Patch = Inr [\<lparr>fromFile = Some ''old.yaml'', toFile = None,
                         Chunks = [\<lparr>chunk_Content = ''x: 1\<newline>y: 2\<newline>'', chunk_Type = Delete\<rparr>]\<rparr>]\<rparr>"

definition repo_of :: "Commit \<Rightarrow> Repository" where
  "repo_of commit = \<lparr>References = Inr sample_refs, References_err = None, lookup_commit = Inr commit\<rparr>"

definition root_commit :: Commit where
  "root_commit =
     \<lparr>Hash = ''18d7144648d7474cac9dee02b104bc78ce47fc3d'', NumParents = 0,
      commit_Tree = Inr \<lparr>tree_Hash = ''ac7a748a48b495212a87d544d7a6132e4a9d058a'',
                         Files = [\<lparr>Name = ''a.txt'', Size = 6, Contents = Inr ''a\<newline>b\<newline>c\<newline>''\<rparr>],
                         Files_err = None\<rparr>,
      commit_Parent = None, parent_Tree = None, tree_Patch = Inr []\<rparr>"

definition broken_commit :: Commit where
  "broken_commit = sample_commit\<lparr>commit_Parent := Some (Error ''object not found'')\<rparr>"

definition broken_repo :: Repository where
  "broken_repo =
     \<lparr>References = Inl (Error ''reference storage unreadable''), References_err = None,
      lookup_commit = Inr broken_commit\<rparr>"


definition root_commit_no_eol :: Commit where
  "root_commit_no_eol =
     root_commit\<lparr>commit_Tree := Inr \<lparr>tree_Hash = ''ac7a748a48b495212a87d544d7a6132e4a9d058a'',
                         Files = [\<lparr>Name = ''a.txt'', Size = 5, Contents = Inr ''a\<newline>b\<newline>c''\<rparr>],
                         Files_err = None\<rparr>\<rparr>"

definition submodule_commit :: Commit where
  "submodule_commit =
     \<lparr>Hash = ''18d7144648d7474cac9dee02b104bc78ce47fc3d'', NumParents = 1,
      commit_Tree = Inr sample_tree, commit_Parent = None, parent_Tree = None,
      tree_Patch = Inr [\<lparr>fromFile = None, toFile = None, Chunks = []\<rparr>]\<rparr>"

definition small_cfg :: Config where
  "small_cfg = sample_cfg\<lparr>MaxDiffSize := 10\<rparr>"

definition sample_patch :: FilePatch where
  "sample_patch =
     \<lparr>fromFile = Some ''config.yaml'', toFile = Some ''config.yaml'',
      Chunks = [\<lparr>chunk_Content = ''id: 7\<newline>'', chunk_Type = Equal\<rparr>,
                \<lparr>chunk_Content = ''severity: critical\<newline>'', chunk_Type = Delete\<rparr>,
                \<lparr>chunk_Content = ''severity: high\<newline>\<newline>note: x\<newline>'', chunk_Type = Add\<rparr>]\<rparr>"

definition dash_patch :: FilePatch where
  "dash_patch =
     \<lparr>fromFile = Some ''q.sql'', toFile = Some ''q.sql'',
      Chunks = [\<lparr>chunk_Content = ''-- old note\<newline>select 1;\<newline>'', chunk_Type = Delete\<rparr>]\<rparr>"

section \<open>Properties of the parser\<close>

text \<open>
  C10. A text that splits into fewer than three newline-separated lines (the empty text
  among them) parses to empty addition and deletion lists, whatever its lines begin
  with.
\<close>

theorem parseDiffContent_short:
  "length (Split s newline) < 3 \<Longrightarrow> parseDiffContent s = ([], [])"
  by (simp add: parseDiffContent_def)

theorem parseDiffContent_short_witness:
  "length (Split ''+a\<newline>-b'' newline) < 3 \<and> parseDiffContent ''+a\<newline>-b'' = ([], [])"
proof -
  have h: "length (Split ''+a\<newline>-b'' newline) < 3"
    by (simp add: newline_def)
  show ?thesis
    using h parseDiffContent_short [OF h] by simp
qed

lemma not_header_Nil: "\<not> is_diff_header []"
  by (simp add: is_diff_header_def HasPrefix_def)

lemma plus_content_not_header:
  "take 1 line = ''+'' \<Longrightarrow> \<not> is_diff_header line \<Longrightarrow> \<not> HasPrefix (drop 1 line) ''++ b/''"
  by (cases line) (auto simp: is_diff_header_def HasPrefix_def prefix_def)

lemma minus_content_not_header:
  "take 1 line = ''-'' \<Longrightarrow> \<not> is_diff_header line \<Longrightarrow> \<not> HasPrefix (drop 1 line) ''-- a/''"
  by (cases line) (auto simp: is_diff_header_def HasPrefix_def prefix_def)

lemma classify_line_plain:
  "\<not> is_diff_header line \<Longrightarrow>
   classify_line line acc =
     (if take 1 line = ''+'' then (fst acc @ [\<lparr>lc_Type = ''add'', lc_Content = drop 1 line\<rparr>], snd acc)
      else if take 1 line = ''-'' then (fst acc, snd acc @ [\<lparr>lc_Type = ''delete'', lc_Content = drop 1 line\<rparr>])
      else acc)"
  using plus_content_not_header [of line] minus_content_not_header [of line]
  by (simp add: classify_line_def Let_def)

lemma simple_loop_started:
  "simple_loop lines True acc = (fst acc @ added_lines lines, snd acc @ removed_lines lines)"
proof (induction lines arbitrary: acc)
  case Nil
  then show ?case by (simp add: added_lines_def removed_lines_def)
next
  case (Cons line lines)
  show ?case
  proof (cases "line = [] \<or> is_diff_header line")
    case True
    then have "simple_loop (line # lines) True acc = simple_loop lines True acc"
      by auto
    moreover have "added_lines (line # lines) = added_lines lines"
          "removed_lines (line # lines) = removed_lines lines"
      using True by (auto simp: added_lines_def removed_lines_def)
    ultimately show ?thesis
      by (simp add: Cons.IH)
  next
    case False
    then have "simple_loop (line # lines) True acc = simple_loop lines True (classify_line line acc)"
      by simp
    then show ?thesis
      using False
      by (simp add: Cons.IH classify_line_plain added_lines_def removed_lines_def)
  qed
qed

lemma simple_loop_waiting:
  "simple_loop lines False acc = simple_loop (after_first_header lines) True acc"
proof (induction lines)
  case Nil
  then show ?case by (simp add: after_first_header_def)
next
  case (Cons line lines)
  then show ?case
    using not_header_Nil by (auto simp: after_first_header_def)
qed

lemma headerless_parse_lines:
  assumes "3 \<le> length (Split s newline)"
      and "\<not> list_ex (\<lambda>line. HasPrefix line ''@@'') (Split s newline)"
  shows "parseDiffContent s =
           (added_lines (after_first_header (Split s newline)),
            removed_lines (after_first_header (Split s newline)))"
proof -
  have "s \<noteq> []"
    using assms(1) by auto
  then have "parseDiffContent s = simple_loop (Split s newline) False ([], [])"
    using assms by (simp add: parseDiffContent_def Let_def)
  then show ?thesis
    by (simp add: simple_loop_waiting simple_loop_started)
qed

text \<open>
  C7, as the code has it. In headerless mode (at least three lines, none beginning with
  \<open>@@\<close>) the parser starts to accumulate behind the first file-header line: of the
  lines after it, every one that is not empty and no header is an addition when it
  begins with \<open>+\<close> and a deletion when it begins with \<open>-\<close>, its content the rest of the
  line. Lines before the first header line are dropped, and a text without a header
  line gives empty lists.
\<close>

theorem headerless_parse:
  assumes "3 \<le> length (Split s newline)"
      and "\<not> list_ex (\<lambda>line. HasPrefix line ''@@'') (Split s newline)"
  shows "parseDiffContent s =
           (added_lines (after_first_header (Split s newline)),
            removed_lines (after_first_header (Split s newline)))"
  using assms by (rule headerless_parse_lines)

theorem headerless_parse_witness:
  "3 \<le> length (Split ''+early\<newline>--- a/x\<newline>+new\<newline>-old\<newline> same'' newline) \<and>
   \<not> list_ex (\<lambda>line. HasPrefix line ''@@'') (Split ''+early\<newline>--- a/x\<newline>+new\<newline>-old\<newline> same'' newline) \<and>
   parseDiffContent ''+early\<newline>--- a/x\<newline>+new\<newline>-old\<newline> same'' =
     ([\<lparr>lc_Type = ''add'', lc_Content = ''new''\<rparr>], [\<lparr>lc_Type = ''delete'', lc_Content = ''old''\<rparr>])"
proof -
  let ?s = "''+early\<newline>--- a/x\<newline>+new\<newline>-old\<newline> same''"
  have sp: "Split ?s newline = [''+early'', ''--- a/x'', ''+new'', ''-old'', '' same'']"
    by (simp add: newline_def)
  have h1: "3 \<le> length (Split ?s newline)"
    unfolding sp by simp
  have h2: "\<not> list_ex (\<lambda>line. HasPrefix line ''@@'') (Split ?s newline)"
    unfolding sp by (simp add: HasPrefix_def)
  have r: "added_lines (after_first_header (Split ?s newline)) = [\<lparr>lc_Type = ''add'', lc_Content = ''new''\<rparr>]"
     "removed_lines (after_first_header (Split ?s newline)) = [\<lparr>lc_Type = ''delete'', lc_Content = ''old''\<rparr>]"
    unfolding sp by (simp_all add: after_first_header_def added_lines_def removed_lines_def is_diff_header_def HasPrefix_def)
  show ?thesis
    using h1 h2 r headerless_parse [OF h1 h2] by simp
qed

text \<open>
  Three change lines and no header line: headerless mode, and nothing is collected.
\<close>

theorem headerless_counterexample:
  "length (Split ''+a\<newline>-b\<newline>+c'' newline) = 3 \<and>
   \<not> list_ex (\<lambda>line. HasPrefix line ''@@'') (Split ''+a\<newline>-b\<newline>+c'' newline) \<and>
   parseDiffContent ''+a\<newline>-b\<newline>+c'' = ([], [])"
  by (simp add: parseDiffContent_def newline_def HasPrefix_def is_diff_header_def)

section \<open>Properties of the focus classifier\<close>

lemma isIgnoredByFilePatterns_iff:
  "isIgnoredByFilePatterns path ps = (\<exists>p\<in>set ps. p path)"
  by (induction ps) auto

text \<open>
  C6. A change whose path matches one of the compiled ignore patterns is never a focus
  change: \<open>CheckFocusChange\<close> answers \<open>nil, false\<close> and leaves the change as it was,
  whatever the action, the lines and the configuration are.
\<close>

theorem ignore_precedence:
  "\<exists>p\<in>set (cp_IgnorePatterns pats). p (Filepath change) \<Longrightarrow>
   CheckFocusChange cfg pats change = (None, change)"
  by (simp add: CheckFocusChange_def isIgnoredByFilePatterns_iff)

theorem ignore_precedence_witness:
  "(\<exists>p\<in>set (cp_IgnorePatterns sample_patterns).
      p (Filepath (modified ''digest/config.yaml'' [''severity: high''] [''severity: critical'']))) \<and>
   fst (CheckFocusChange sample_cfg sample_patterns
          (modified ''digest/config.yaml'' [''severity: high''] [''severity: critical''])) = None"
proof -
  have h: "\<exists>p\<in>set (cp_IgnorePatterns sample_patterns).
      p (Filepath (modified ''digest/config.yaml'' [''severity: high''] [''severity: critical'']))"
    by (simp add: sample_patterns_def modified_def has_substring_def)
  show ?thesis
    using h ignore_precedence [OF h, of sample_cfg] by simp
qed

lemma length_TruncateString: "length (TruncateString s 100) \<le> 124"
  by (simp add: TruncateString_def truncated_marker_def)

lemma Contains_iff: "Contains xs x = (x \<in> set xs)"
  by (induction xs) auto

text \<open>
  The summaries stay pairwise different and are summaries of the lines seen, through
  one run of the content loop.
\<close>

lemma match_loop_inv:
  "distinct (fst acc) \<Longrightarrow> set (fst acc) \<subseteq> S \<Longrightarrow>
   (\<lambda>l. TruncateString (lc_Content l) 100) ` set ls \<subseteq> S \<Longrightarrow>
   distinct (fst (match_loop ig ls acc)) \<and> set (fst (match_loop ig ls acc)) \<subseteq> S"
proof (induction ls arbitrary: acc)
  case Nil
  then show ?case by simp
next
  case (Cons l ls)
  let ?s = "TruncateString (lc_Content l) 100"
  let ?acc' = "(if 0 < length ?s \<and> \<not> Contains (fst acc) ?s then fst acc @ [?s] else fst acc,
                snd acc + 1)"
  have tl: "(\<lambda>l. TruncateString (lc_Content l) 100) ` set ls \<subseteq> S" and hd: "?s \<in> S"
    using Cons.prems(3) by auto
  show ?case
  proof (cases "isLineIgnored (lc_Content l) ig")
    case True
    then have "match_loop ig (l # ls) acc = match_loop ig ls acc"
      by simp
    then show ?thesis
      using Cons.IH [OF Cons.prems(1) Cons.prems(2) tl] by simp
  next
    case False
    then have eq: "match_loop ig (l # ls) acc = match_loop ig ls ?acc'"
      by (simp add: Let_def)
    have d: "distinct (fst ?acc')"
      using Cons.prems(1) by (simp add: Contains_iff)
    have s: "set (fst ?acc') \<subseteq> S"
      using Cons.prems(2) hd by simp
    show ?thesis
      unfolding eq using Cons.IH [OF d s tl] .
  qed
qed

text \<open>
  C4, as the code has it. The summary list of a focus file has no duplicates, and each
  entry comes from an added or removed line of the change: the line's content when
  that has at most 100 bytes, else its first 100 bytes followed by the 24-byte marker
  of \<open>TruncateString\<close>. So an entry has at most 124 bytes, not at most 100.
\<close>

theorem match_lines_summaries:
  assumes "CheckFocusChange cfg pats change = (Some focusFile, change')"
  shows "distinct (MatchLines focusFile) \<and>
         (\<forall>s\<in>set (MatchLines focusFile). length s \<le> 124 \<and>
            (\<exists>l\<in>set (AdditionsList change @ DeletionsList change).
               s = (if length (lc_Content l) \<le> 100 then lc_Content l
                    else take 100 (lc_Content l) @ truncated_marker)))"
proof -
  let ?S = "(\<lambda>l. TruncateString (lc_Content l) 100) `
              set (AdditionsList change @ DeletionsList change)"
  let ?ig = "cp_IgnorePatterns pats"
  let ?a1 = "match_loop ?ig (AdditionsList change) ([], 0)"
  let ?a2 = "match_loop ?ig (DeletionsList change) ?a1"
  have i1: "distinct (fst ?a1) \<and> set (fst ?a1) \<subseteq> ?S"
    by (rule match_loop_inv) auto
  have i2: "distinct (fst ?a2) \<and> set (fst ?a2) \<subseteq> ?S"
    using i1 by (intro match_loop_inv) auto
  have "MatchLines focusFile = [] \<or> MatchLines focusFile = fst ?a2"
    using assms by (auto simp: CheckFocusChange_def Let_def split: if_splits)
  then have "distinct (MatchLines focusFile) \<and> set (MatchLines focusFile) \<subseteq> ?S"
    using i2 by auto
  then show ?thesis
    using length_TruncateString by (fastforce simp: TruncateString_def)
qed

theorem match_lines_summaries_witness:
  "CheckFocusChange sample_cfg sample_patterns
      (modified ''config.yaml'' [''severity: high'', ''severity: high'']
                                [''severity: critical'', ''digest: abc'']) =
     (Some \<lparr>ff_Filepath = ''config.yaml'', ff_Action = ''modify'', Reason = modify_reason 3,
            MatchCount = 3, MatchLines = [''severity: high'', ''severity: critical'']\<rparr>,
      (modified ''config.yaml'' [''severity: high'', ''severity: high'']
                                [''severity: critical'', ''digest: abc''])
        \<lparr>IsFocus := True, FocusReason := modify_reason 3\<rparr>) \<and>
   distinct [''severity: high'', ''severity: critical''] \<and>
   list_all (\<lambda>s. length s \<le> 124) [''severity: high'', ''severity: critical'']"
proof -
  let ?change = "modified ''config.yaml'' [''severity: high'', ''severity: high'']
                                          [''severity: critical'', ''digest: abc'']"
  let ?ff = "\<lparr>ff_Filepath = ''config.yaml'', ff_Action = ''modify'', Reason = modify_reason 3,
              MatchCount = 3, MatchLines = [''severity: high'', ''severity: critical'']\<rparr>"
  have h: "CheckFocusChange sample_cfg sample_patterns ?change =
             (Some ?ff, ?change\<lparr>IsFocus := True, FocusReason := modify_reason 3\<rparr>)"
    by code_simp
  show ?thesis
    using h match_lines_summaries [OF h] by simp
qed

text \<open>
  A modified line of 101 bytes is summarised in 124 bytes: its first 100 bytes and the
  marker.
\<close>

theorem match_lines_100_counterexample:
  "fst (CheckFocusChange sample_cfg sample_patterns
          (modified ''config.yaml'' [replicate 101 (CHR ''x'')] [])) =
     Some \<lparr>ff_Filepath = ''config.yaml'', ff_Action = ''modify'', Reason = modify_reason 1,
           MatchCount = 1, MatchLines = [replicate 100 (CHR ''x'') @ truncated_marker]\<rparr> \<and>
   length (replicate 100 (CHR ''x'') @ truncated_marker) = 124"
proof -
  have "length (replicate 100 (CHR ''x'') @ truncated_marker) = 124"
    by (simp add: truncated_marker_def)
  moreover have "fst (CheckFocusChange sample_cfg sample_patterns
          (modified ''config.yaml'' [replicate 101 (CHR ''x'')] [])) =
     Some \<lparr>ff_Filepath = ''config.yaml'', ff_Action = ''modify'', Reason = modify_reason 1,
           MatchCount = 1, MatchLines = [replicate 100 (CHR ''x'') @ truncated_marker]\<rparr>"
    by code_simp
  ultimately show ?thesis by simp
qed

section \<open>Properties of the change aggregator\<close>

lemma root_file_counts:
  "length (changes (fst (root_file cfg f w))) = Suc (length (changes w)) \<and>
   action_sum (stats (fst (root_file cfg f w))) = action_sum (stats w) + 1"
  by (simp add: root_file_def Let_def action_sum_def)

lemma root_files_counts:
  "length (changes (root_files cfg fs w)) = length (changes w) + length fs \<and>
   action_sum (stats (root_files cfg fs w)) = action_sum (stats w) + int (length fs)"
  by (induction fs arbitrary: w) (simp_all add: root_file_counts)

lemma chunk_loop_action_sum:
  "action_sum (cw_stats (chunk_loop cs cw)) = action_sum (cw_stats cw)"
  by (induction cs arbitrary: cw) (simp_all add: Let_def action_sum_def split: Operation.split)

lemma patch_action_sum:
  "has_side fp \<Longrightarrow> action_sum (snd (patch_action fp (c, st))) = action_sum st + 1"
  by (auto simp: patch_action_def has_side_def action_sum_def Let_def)

lemma patch_step_counts:
  "has_side fp \<Longrightarrow>
   length (changes (patch_step ToLower cfg tree fp w)) = Suc (length (changes w)) \<and>
   action_sum (stats (patch_step ToLower cfg tree fp w)) = action_sum (stats w) + 1"
proof -
  assume hs: "has_side fp"
  let ?cs = "patch_action fp (zero_ChangeInfo, stats w)"
  let ?cw = "chunk_loop (Chunks fp)
                 \<lparr>builder = diff_header fp, additions = 0, deletions = 0, cw_stats = snd ?cs\<rparr>"
  have a: "action_sum (cw_stats ?cw) = action_sum (stats w) + 1"
    using patch_action_sum [OF hs] by (simp add: chunk_loop_action_sum)
  have b: "action_sum (st\<lparr>BinaryFiles := n\<rparr>) = action_sum st" for st n
    by (simp add: action_sum_def)
  show ?thesis
    using a hs by (simp add: patch_step_def Let_def b has_side_def)
qed

lemma patch_steps_counts:
  "list_all has_side fps \<Longrightarrow>
   length (changes (patch_steps ToLower cfg tree fps w)) = length (changes w) + length fps \<and>
   action_sum (stats (patch_steps ToLower cfg tree fps w)) = action_sum (stats w) + int (length fps)"
  by (induction fps arbitrary: w) (simp_all add: patch_step_counts)


text \<open>
  When every file patch of the commit has at least one of its two files and
  \<open>getCommitChanges\<close> succeeds, the N file changes give N change records,
  \<open>TotalFiles\<close> is N and the per-action counters add up to N.
\<close>

theorem stats_additivity:
  assumes "getCommitChanges ToLower cfg commit = (chs, st, ds, None)"
      and "patches_have_a_side commit"
  shows "length chs = file_changes commit \<and>
         TotalFiles st = int (file_changes commit) \<and>
         AddFiles st + DeleteFiles st + ModifyFiles st + RenameFiles st + CopyFiles st =
           int (file_changes commit)"
proof -
  have z: "action_sum (stats (start_walk cfg)) = 0" "changes (start_walk cfg) = []"
    by (simp_all add: start_walk_def action_sum_def zero_StatsInfo_def)
  have t: "action_sum (s\<lparr>TotalFiles := n\<rparr>) = action_sum s" for s n
    by (simp add: action_sum_def)
  show ?thesis
  proof (cases "NumParents commit = 0")
    case True
    then obtain tree where tree: "commit_Tree commit = Inr tree" "Files_err tree = None"
      using assms(1)
      by (auto simp: getCommitChanges_def give_up_def Let_def split: sum.splits option.splits)
    let ?w = "root_files cfg (Files tree) (start_walk cfg)"
    have "chs = changes ?w \<and> st = (stats ?w)\<lparr>TotalFiles := int (length (changes ?w))\<rparr>"
      using assms(1) True tree by (auto simp: getCommitChanges_def Let_def)
    moreover have "file_changes commit = length (Files tree)"
      using True tree by (simp add: file_changes_def)
    ultimately show ?thesis
      using root_files_counts [of cfg "Files tree" "start_walk cfg"] z t
      by (simp add: action_sum_def)
  next
    case False
    then obtain tree patches where ok: "commit_Tree commit = Inr tree"
      "tree_Patch commit = Inr patches" "commit_Parent commit = None" "parent_Tree commit = None"
      using assms(1)
      by (auto simp: getCommitChanges_def give_up_def Let_def split: sum.splits option.splits)
    let ?w = "patch_steps ToLower cfg tree patches (start_walk cfg)"
    have "chs = changes ?w \<and> st = (stats ?w)\<lparr>TotalFiles := int (length (changes ?w))\<rparr>"
      using assms(1) False ok by (auto simp: getCommitChanges_def Let_def)
    moreover have "file_changes commit = length patches" "list_all has_side patches"
      using False ok assms(2) by (simp_all add: file_changes_def patches_have_a_side_def)
    ultimately show ?thesis
      using patch_steps_counts [of patches ToLower cfg tree "start_walk cfg"] z t
      by (simp add: action_sum_def)
  qed
qed

theorem stats_additivity_witness:
  "snd (snd (snd (getCommitChanges ascii_ToLower sample_cfg sample_commit))) = None \<and>
   patches_have_a_side sample_commit \<and>
   length (fst (getCommitChanges ascii_ToLower sample_cfg sample_commit)) = 4 \<and>
   TotalFiles (fst (snd (getCommitChanges ascii_ToLower sample_cfg sample_commit))) = 4 \<and>
   AddFiles (fst (snd (getCommitChanges ascii_ToLower sample_cfg sample_commit))) +
   DeleteFiles (fst (snd (getCommitChanges ascii_ToLower sample_cfg sample_commit))) +
   ModifyFiles (fst (snd (getCommitChanges ascii_ToLower sample_cfg sample_commit))) +
   RenameFiles (fst (snd (getCommitChanges ascii_ToLower sample_cfg sample_commit))) +
   CopyFiles (fst (snd (getCommitChanges ascii_ToLower sample_cfg sample_commit))) = 4"
proof -
  let ?got = "getCommitChanges ascii_ToLower sample_cfg sample_commit"
  have e: "snd (snd (snd ?got)) = None"
    by (simp add: getCommitChanges_def sample_commit_def Let_def)
  have h: "?got = (fst ?got, fst (snd ?got), fst (snd (snd ?got)), None)"
    using e by (metis prod.collapse)
  have wf: "patches_have_a_side sample_commit"
    by (simp add: patches_have_a_side_def sample_commit_def sample_patches_def has_side_def)
  have n: "file_changes sample_commit = 4"
    by (simp add: file_changes_def sample_commit_def sample_patches_def)
  show ?thesis
    using e wf n stats_additivity [OF h wf] by simp
qed

text \<open>
  The first half of the additivity holds for every commit: a successful run returns as
  many change records as the commit has file changes, and \<open>TotalFiles\<close> is that
  number.
\<close>

lemma patch_step_length:
  "length (changes (patch_step ToLower cfg tree fp w)) = Suc (length (changes w))"
  by (simp add: patch_step_def Let_def)

lemma patch_steps_length:
  "length (changes (patch_steps ToLower cfg tree fps w)) = length (changes w) + length fps"
  by (induction fps arbitrary: w) (simp_all add: patch_step_length)

lemma total_files_exact:
  assumes "getCommitChanges ToLower cfg commit = (chs, st, ds, None)"
  shows "length chs = file_changes commit \<and> TotalFiles st = int (file_changes commit)"
proof (cases "NumParents commit = 0")
  case True
  then obtain tree where tree: "commit_Tree commit = Inr tree" "Files_err tree = None"
    using assms
    by (auto simp: getCommitChanges_def give_up_def Let_def split: sum.splits option.splits)
  let ?w = "root_files cfg (Files tree) (start_walk cfg)"
  have "chs = changes ?w \<and> st = (stats ?w)\<lparr>TotalFiles := int (length (changes ?w))\<rparr>"
    using assms True tree by (auto simp: getCommitChanges_def Let_def)
  moreover have "file_changes commit = length (Files tree)"
    using True tree by (simp add: file_changes_def)
  ultimately show ?thesis
    using root_files_counts [of cfg "Files tree" "start_walk cfg"]
    by (simp add: start_walk_def)
next
  case False
  then obtain tree patches where ok: "commit_Tree commit = Inr tree"
    "tree_Patch commit = Inr patches" "commit_Parent commit = None" "parent_Tree commit = None"
    using assms
    by (auto simp: getCommitChanges_def give_up_def Let_def split: sum.splits option.splits)
  let ?w = "patch_steps ToLower cfg tree patches (start_walk cfg)"
  have "chs = changes ?w \<and> st = (stats ?w)\<lparr>TotalFiles := int (length (changes ?w))\<rparr>"
    using assms False ok by (auto simp: getCommitChanges_def Let_def)
  moreover have "file_changes commit = length patches"
    using False ok by (simp add: file_changes_def)
  ultimately show ?thesis
    using patch_steps_length [of ToLower cfg tree patches "start_walk cfg"]
    by (simp add: start_walk_def)
qed

text \<open>
  C5, evaluated. A commit whose one file patch has neither of its two files is
  processed without error into one change record with an empty \<open>Action\<close>.
  \<open>TotalFiles\<close> is 1, and \<open>AddFiles\<close>, \<open>DeleteFiles\<close>, \<open>ModifyFiles\<close>, \<open>RenameFiles\<close>
  and \<open>CopyFiles\<close> are all 0: the three-way test on the two files has no branch for
  this patch, and the record is appended and counted all the same.
\<close>

theorem sideless_patch_not_counted:
  "file_changes submodule_commit = 1 \<and>
   getCommitChanges ascii_ToLower sample_cfg submodule_commit =
     ([\<lparr>Action = [], Filepath = [], OldPath = [], NewPath = [], Additions = 0, Deletions = 0,
        DiffContent = [], Extension = [], FileSize = 0, IsBinary = False, AdditionsList = [],
        DeletionsList = [], IsFocus = False, FocusReason = []\<rparr>],
      \<lparr>TotalAdditions = 0, TotalDeletions = 0, TotalFiles = 1, AddFiles = 0, DeleteFiles = 0,
       ModifyFiles = 0, RenameFiles = 0, CopyFiles = 0, BinaryFiles = 0\<rparr>,
      \<lparr>TotalDiffSize = 0, DiffTooLarge = False, ds_MaxDiffSize = 1048576, FullDiff = []\<rparr>,
      None)"
  by code_simp

text \<open>
  C8, evaluated. The initial commit whose one file \<open>a.txt\<close> holds the three lines
  \<open>a\<close>, \<open>b\<close>, \<open>c\<close>, each ended by a newline, gives one \<open>add\<close> change with no deletions
  and the counters \<open>AddFiles = 1\<close>, \<open>TotalFiles = 1\<close>, but \<open>Additions = 4\<close>: the count
  is the number of pieces \<open>strings.Split\<close> returns, and the piece after the last
  newline is not taken off as the chunk loop of the other path does. Without the final
  newline the count is 3.
\<close>

theorem root_commit_three_lines:
  "map Action (fst (getCommitChanges ascii_ToLower sample_cfg root_commit)) = [''add''] \<and>
   map Additions (fst (getCommitChanges ascii_ToLower sample_cfg root_commit)) = [4] \<and>
   map Deletions (fst (getCommitChanges ascii_ToLower sample_cfg root_commit)) = [0] \<and>
   AddFiles (fst (snd (getCommitChanges ascii_ToLower sample_cfg root_commit))) = 1 \<and>
   TotalFiles (fst (snd (getCommitChanges ascii_ToLower sample_cfg root_commit))) = 1 \<and>
   map Additions (fst (getCommitChanges ascii_ToLower sample_cfg root_commit_no_eol)) = [3]"
  by code_simp

text \<open>
  C3, evaluated with a limit of 10 bytes. In the initial commit the 34-byte diff text of
  \<open>a.txt\<close> sets \<open>DiffTooLarge\<close>, but the change in the returned list still has the
  whole text: the list took its copy before the callback wrote the placeholder. In a
  commit with a parent the branch for a deleted file has no size test: the 99-byte text
  stays and \<open>DiffTooLarge\<close> stays false.
\<close>

theorem oversize_diff_kept:
  "getCommitChanges ascii_ToLower small_cfg root_commit =
     ([\<lparr>Action = ''add'', Filepath = ''a.txt'', OldPath = [], NewPath = [],
        Additions = 4, Deletions = 0,
        DiffContent = ''+++ b/a.txt\<newline>@@ -0,0 +1,4 @@\<newline>a\<newline>b\<newline>c\<newline>'',
        Extension = ''txt'', FileSize = 6, IsBinary = False,
        AdditionsList = [], DeletionsList = [], IsFocus = False, FocusReason = []\<rparr>],
      \<lparr>TotalAdditions = 0, TotalDeletions = 0, TotalFiles = 1, AddFiles = 1,
       DeleteFiles = 0, ModifyFiles = 0, RenameFiles = 0, CopyFiles = 0, BinaryFiles = 0\<rparr>,
      \<lparr>TotalDiffSize = 34, DiffTooLarge = True, ds_MaxDiffSize = 10, FullDiff = []\<rparr>,
      None) \<and>
   MaxDiffSize small_cfg = 10 \<and>
   map DiffContent (fst (getCommitChanges ascii_ToLower small_cfg delete_commit)) =
     [''diff --git a/old.yaml b/old.yaml\<newline>deleted file mode 100644\<newline>--- a/old.yaml\<newline>+++ /dev/null\<newline>-x: 1\<newline>-y: 2\<newline>''] \<and>
   DiffTooLarge (fst (snd (snd (getCommitChanges ascii_ToLower small_cfg delete_commit)))) = False"
  by code_simp

section \<open>Synthesizer and parser together\<close>

lemma unlines_append: "unlines (xs @ ys) = unlines xs @ unlines ys"
  by (simp add: unlines_def)

lemma write_lines_eq:
  "write_lines m ls b = b @ unlines (map ((#) m) (filter (\<lambda>l. l \<noteq> []) ls))"
  by (induction ls arbitrary: b) (simp_all add: unlines_def)

lemma builder_chunk_loop:
  "builder (chunk_loop cs cw) = builder cw @ unlines (concat (map emitted cs))"
proof (induction cs arbitrary: cw)
  case Nil
  then show ?case by (simp add: unlines_def)
next
  case (Cons c cs)
  show ?case
    by (cases "chunk_Type c")
       (simp_all add: Let_def Cons.IH emitted_def write_lines_eq unlines_append)
qed

lemma Split_line:
  "newline \<notin> set l \<Longrightarrow> Split (l @ newline # rest) newline = l # Split rest newline"
  by (induction l) auto

lemma Split_unlines:
  "list_all (\<lambda>l. newline \<notin> set l) ls \<Longrightarrow> Split (unlines ls @ rest) newline = ls @ Split rest newline"
  by (induction ls) (simp_all add: unlines_def Split_line)

lemma Split_pieces: "l \<in> set (Split s sep) \<Longrightarrow> sep \<notin> set l"
  by (induction s arbitrary: l) (auto split: if_splits list.splits)

lemma chunk_lines_pieces: "l \<in> set (chunk_lines s) \<Longrightarrow> newline \<notin> set l"
  by (auto simp: chunk_lines_def Let_def Split_pieces split: if_splits dest: in_set_butlastD)

lemma emitted_pieces: "l \<in> set (emitted c) \<Longrightarrow> newline \<notin> set l"
  by (cases "chunk_Type c") (auto simp: emitted_def newline_def dest: chunk_lines_pieces [unfolded newline_def])


lemma diff_header_lines: "diff_header fp = unlines (header_lines fp)"
  by (simp add: diff_header_def header_lines_def unlines_def from_path_def to_path_def Let_def)

lemma header_lines_headers: "list_all is_diff_header (header_lines fp)"
  by (simp add: header_lines_def is_diff_header_def HasPrefix_def)

lemma header_lines_length: "has_side fp \<Longrightarrow> 3 \<le> length (header_lines fp)"
  by (auto simp: header_lines_def has_side_def)

lemma header_lines_pieces:
  "newline \<notin> set (from_path fp) \<Longrightarrow> newline \<notin> set (to_path fp) \<Longrightarrow>
   list_all (\<lambda>l. newline \<notin> set l) (header_lines fp)"
  by (simp add: header_lines_def newline_def)

lemma file_diff_lines:
  "file_diff fp = unlines (header_lines fp @ concat (map emitted (Chunks fp)))"
  by (simp add: file_diff_def builder_chunk_loop diff_header_lines unlines_append)

lemma is_diff_header_no_hunk: "is_diff_header l \<Longrightarrow> \<not> HasPrefix l ''@@''"
  by (auto simp: is_diff_header_def HasPrefix_def prefix_def)

lemma emitted_no_hunk: "l \<in> set (emitted c) \<Longrightarrow> \<not> HasPrefix l ''@@''"
  by (cases "chunk_Type c") (auto simp: emitted_def HasPrefix_def)

lemma added_lines_append: "added_lines (xs @ ys) = added_lines xs @ added_lines ys"
  by (simp add: added_lines_def)

lemma removed_lines_append: "removed_lines (xs @ ys) = removed_lines xs @ removed_lines ys"
  by (simp add: removed_lines_def)

lemma added_lines_headers: "list_all is_diff_header ls \<Longrightarrow> added_lines ls = []"
  by (induction ls) (simp_all add: added_lines_def)

lemma removed_lines_headers: "list_all is_diff_header ls \<Longrightarrow> removed_lines ls = []"
  by (induction ls) (simp_all add: removed_lines_def)

lemma plus_line_header: "is_diff_header (CHR ''+'' # l) = HasPrefix l ''++ ''"
  by (simp add: is_diff_header_def HasPrefix_def)

lemma minus_line_header: "is_diff_header (CHR ''-'' # l) = HasPrefix l ''-- ''"
  by (simp add: is_diff_header_def HasPrefix_def)

lemma added_plus_lines:
  "list_all (\<lambda>l. \<not> HasPrefix l ''++ '') ls \<Longrightarrow>
   added_lines (map ((#) (CHR ''+'')) ls) = map (\<lambda>l. \<lparr>lc_Type = ''add'', lc_Content = l\<rparr>) ls"
  by (induction ls) (simp_all add: added_lines_def plus_line_header)

lemma removed_minus_lines:
  "list_all (\<lambda>l. \<not> HasPrefix l ''-- '') ls \<Longrightarrow>
   removed_lines (map ((#) (CHR ''-'')) ls) = map (\<lambda>l. \<lparr>lc_Type = ''delete'', lc_Content = l\<rparr>) ls"
  by (induction ls) (simp_all add: removed_lines_def minus_line_header)

lemma added_minus_lines: "added_lines (map ((#) (CHR ''-'')) ls) = []"
  by (induction ls) (simp_all add: added_lines_def)

lemma removed_plus_lines: "removed_lines (map ((#) (CHR ''+'')) ls) = []"
  by (induction ls) (simp_all add: removed_lines_def)

lemma added_emitted:
  "list_all (\<lambda>l. \<not> HasPrefix l ''++ '') (lines_of Add cs) \<Longrightarrow>
   added_lines (concat (map emitted cs)) =
     map (\<lambda>l. \<lparr>lc_Type = ''add'', lc_Content = l\<rparr>) (filter (\<lambda>l. l \<noteq> []) (lines_of Add cs))"
proof (induction cs)
  case Nil
  then show ?case by (simp add: lines_of_def added_lines_def)
next
  case (Cons c cs)
  show ?case
  proof (cases "chunk_Type c")
    case Add
    with Cons.prems have ok: "list_all (\<lambda>l. \<not> HasPrefix l ''++ '') (chunk_lines (chunk_Content c))"
       and rest: "list_all (\<lambda>l. \<not> HasPrefix l ''++ '') (lines_of Add cs)"
      by (simp_all add: lines_of_def)
    from ok have "list_all (\<lambda>l. \<not> HasPrefix l ''++ '') (filter (\<lambda>l. l \<noteq> []) (chunk_lines (chunk_Content c)))"
      by (simp add: list_all_iff)
    then show ?thesis
      using Add Cons.IH [OF rest]
      by (simp add: emitted_def added_lines_append added_plus_lines lines_of_def)
  next
    case Delete
    with Cons.prems have rest: "list_all (\<lambda>l. \<not> HasPrefix l ''++ '') (lines_of Add cs)"
      by (simp add: lines_of_def)
    show ?thesis
      using Delete Cons.IH [OF rest]
      by (simp add: emitted_def added_lines_append added_minus_lines lines_of_def)
  next
    case Equal
    with Cons.prems have rest: "list_all (\<lambda>l. \<not> HasPrefix l ''++ '') (lines_of Add cs)"
      by (simp add: lines_of_def)
    show ?thesis
      using Equal Cons.IH [OF rest]
      by (simp add: emitted_def lines_of_def)
  qed
qed

lemma removed_emitted:
  "list_all (\<lambda>l. \<not> HasPrefix l ''-- '') (lines_of Delete cs) \<Longrightarrow>
   removed_lines (concat (map emitted cs)) =
     map (\<lambda>l. \<lparr>lc_Type = ''delete'', lc_Content = l\<rparr>) (filter (\<lambda>l. l \<noteq> []) (lines_of Delete cs))"
proof (induction cs)
  case Nil
  then show ?case by (simp add: lines_of_def removed_lines_def)
next
  case (Cons c cs)
  show ?case
  proof (cases "chunk_Type c")
    case Delete
    with Cons.prems have ok: "list_all (\<lambda>l. \<not> HasPrefix l ''-- '') (chunk_lines (chunk_Content c))"
       and rest: "list_all (\<lambda>l. \<not> HasPrefix l ''-- '') (lines_of Delete cs)"
      by (simp_all add: lines_of_def)
    from ok have "list_all (\<lambda>l. \<not> HasPrefix l ''-- '') (filter (\<lambda>l. l \<noteq> []) (chunk_lines (chunk_Content c)))"
      by (simp add: list_all_iff)
    then show ?thesis
      using Delete Cons.IH [OF rest]
      by (simp add: emitted_def removed_lines_append removed_minus_lines lines_of_def)
  next
    case Add
    with Cons.prems have rest: "list_all (\<lambda>l. \<not> HasPrefix l ''-- '') (lines_of Delete cs)"
      by (simp add: lines_of_def)
    show ?thesis
      using Add Cons.IH [OF rest]
      by (simp add: emitted_def removed_lines_append removed_plus_lines lines_of_def)
  next
    case Equal
    with Cons.prems have rest: "list_all (\<lambda>l. \<not> HasPrefix l ''-- '') (lines_of Delete cs)"
      by (simp add: lines_of_def)
    show ?thesis
      using Equal Cons.IH [OF rest]
      by (simp add: emitted_def lines_of_def)
  qed
qed


lemma chunk_loop_counts:
  "additions (chunk_loop cs cw) = additions cw + int (length (lines_of Add cs)) \<and>
   deletions (chunk_loop cs cw) = deletions cw + int (length (lines_of Delete cs))"
proof (induction cs arbitrary: cw)
  case Nil
  then show ?case by (simp add: lines_of_def)
next
  case (Cons c cs)
  show ?case
    by (cases "chunk_Type c") (simp_all add: Let_def Cons.IH lines_of_def)
qed

lemma builder_any_counters:
  "builder (chunk_loop (Chunks fp) \<lparr>builder = diff_header fp, additions = a, deletions = d, cw_stats = st\<rparr>) =
   file_diff fp"
  by (simp add: file_diff_def builder_chunk_loop)

lemma file_diff_Split:
  assumes "newline \<notin> set (from_path fp)" and "newline \<notin> set (to_path fp)"
  shows "Split (file_diff fp) newline = header_lines fp @ concat (map emitted (Chunks fp)) @ [[]]"
proof -
  have "list_all (\<lambda>l. newline \<notin> set l) (header_lines fp @ concat (map emitted (Chunks fp)))"
    using header_lines_pieces [OF assms] emitted_pieces by (auto simp: list_all_iff)
  from Split_unlines [OF this, of "[]"] show ?thesis
    by (simp add: file_diff_lines)
qed

text \<open>
  C1, as the code has it. For a file patch of the loop over \<open>patch.FilePatches()\<close>
  with at least one of its two files, whose paths hold no newline, whose added lines do
  not begin with \<open>++ \<close> and whose removed lines do not begin with \<open>-- \<close>: parsing the
  synthesized text gives, in order, the lines of the Add chunks that are not empty as
  additions and the lines of the Delete chunks that are not empty as deletions. Empty
  lines are not written by the synthesizer and do not come back.
\<close>

theorem roundtrip_nonempty_lines:
  assumes "has_side fp"
      and "newline \<notin> set (from_path fp)" and "newline \<notin> set (to_path fp)"
      and "list_all (\<lambda>l. \<not> HasPrefix l ''++ '') (lines_of Add (Chunks fp))"
      and "list_all (\<lambda>l. \<not> HasPrefix l ''-- '') (lines_of Delete (Chunks fp))"
  shows "parseDiffContent (file_diff fp) =
           (map (\<lambda>l. \<lparr>lc_Type = ''add'', lc_Content = l\<rparr>)
              (filter (\<lambda>l. l \<noteq> []) (lines_of Add (Chunks fp))),
            map (\<lambda>l. \<lparr>lc_Type = ''delete'', lc_Content = l\<rparr>)
              (filter (\<lambda>l. l \<noteq> []) (lines_of Delete (Chunks fp))))"
proof -
  let ?H = "header_lines fp" and ?B = "concat (map emitted (Chunks fp))"
  have sp: "Split (file_diff fp) newline = ?H @ ?B @ [[]]"
    using assms(2,3) by (rule file_diff_Split)
  have len: "3 \<le> length (Split (file_diff fp) newline)"
    using header_lines_length [OF assms(1)] by (simp add: sp)
  have "\<not> HasPrefix l ''@@''" if "l \<in> set (?H @ ?B @ [[]])" for l
    using that header_lines_headers [of fp] is_diff_header_no_hunk emitted_no_hunk
    by (auto simp: list_all_iff HasPrefix_def)
  then have nohunk: "\<not> list_ex (\<lambda>line. HasPrefix line ''@@'') (Split (file_diff fp) newline)"
    unfolding sp list_ex_iff by blast
  obtain h H' where H: "?H = h # H'"
    using header_lines_length [OF assms(1)] by (cases ?H) auto
  have hh: "is_diff_header h" and hH': "list_all is_diff_header H'"
    using header_lines_headers [of fp] by (simp_all add: H)
  have after: "after_first_header (?H @ ?B @ [[]]) = H' @ ?B @ [[]]"
    using hh by (simp add: after_first_header_def H)
  have tail: "added_lines [[]] = []" "removed_lines [[]] = []"
    by (simp_all add: added_lines_def removed_lines_def)
  have "parseDiffContent (file_diff fp) =
          (added_lines (H' @ ?B @ [[]]), removed_lines (H' @ ?B @ [[]]))"
    using headerless_parse_lines [OF len nohunk] by (simp add: sp after)
  then show ?thesis
    by (simp add: added_lines_append removed_lines_append tail
        added_lines_headers [OF hH'] removed_lines_headers [OF hH']
        added_emitted [OF assms(4)] removed_emitted [OF assms(5)])
qed

theorem roundtrip_nonempty_lines_witness:
  "has_side sample_patch \<and>
   newline \<notin> set (from_path sample_patch) \<and> newline \<notin> set (to_path sample_patch) \<and>
   list_all (\<lambda>l. \<not> HasPrefix l ''++ '') (lines_of Add (Chunks sample_patch)) \<and>
   list_all (\<lambda>l. \<not> HasPrefix l ''-- '') (lines_of Delete (Chunks sample_patch)) \<and>
   parseDiffContent (file_diff sample_patch) =
     ([\<lparr>lc_Type = ''add'', lc_Content = ''severity: high''\<rparr>,
       \<lparr>lc_Type = ''add'', lc_Content = ''note: x''\<rparr>],
      [\<lparr>lc_Type = ''delete'', lc_Content = ''severity: critical''\<rparr>])"
proof -
  have a: "lines_of Add (Chunks sample_patch) = [''severity: high'', [], ''note: x'']"
   and d: "lines_of Delete (Chunks sample_patch) = [''severity: critical'']"
    by (simp_all add: lines_of_def sample_patch_def chunk_lines_def newline_def)
  have h1: "has_side sample_patch"
    by (simp add: has_side_def sample_patch_def)
  have h2: "newline \<notin> set (from_path sample_patch)" and h3: "newline \<notin> set (to_path sample_patch)"
    by (simp_all add: from_path_def to_path_def sample_patch_def newline_def)
  have h4: "list_all (\<lambda>l. \<not> HasPrefix l ''++ '') (lines_of Add (Chunks sample_patch))"
    unfolding a by (simp add: HasPrefix_def)
  have h5: "list_all (\<lambda>l. \<not> HasPrefix l ''-- '') (lines_of Delete (Chunks sample_patch))"
    unfolding d by (simp add: HasPrefix_def)
  show ?thesis
    using h1 h2 h3 h4 h5 roundtrip_nonempty_lines [OF h1 h2 h3 h4 h5]
    unfolding a d by simp
qed

text \<open>
  An added empty line is one of the three lines of the Add chunk, and the parser gives
  two additions.
\<close>

theorem roundtrip_counterexample:
  "lines_of Add (Chunks sample_patch) = [''severity: high'', [], ''note: x''] \<and>
   map lc_Content (fst (parseDiffContent (file_diff sample_patch))) = [''severity: high'', ''note: x'']"
  by code_simp

text \<open>
  A removed line that begins with \<open>-- \<close> is written as \<open>--- \<close>\<dots> and skipped by the
  parser as a file header.
\<close>

lemma dash_line_dropped:
  "lines_of Delete (Chunks dash_patch) = [''-- old note'', ''select 1;''] \<and>
   map lc_Content (snd (parseDiffContent (file_diff dash_patch))) = [''select 1;'']"
  by code_simp

text \<open>
  The text that \<open>patch_step\<close> stores and parses is \<open>file_diff\<close>: for a patch with a
  destination file that is not taken for binary, the lists of the change record are
  the two results of the parser on it.
\<close>

lemma patch_step_lists:
  assumes "toFile fp \<noteq> None" and "ParseDiff cfg"
      and "\<not> IsBinary (last (changes (patch_step ToLower cfg tree fp w)))"
  shows "AdditionsList (last (changes (patch_step ToLower cfg tree fp w))) = fst (parseDiffContent (file_diff fp)) \<and>
         DeletionsList (last (changes (patch_step ToLower cfg tree fp w))) = snd (parseDiffContent (file_diff fp))"
  using assms
  by (simp add: patch_step_def Let_def builder_any_counters split: option.splits if_splits)

text \<open>
  The size test of the branch with a destination file: an oversize text is replaced by
  the placeholder in the record that is appended, the flag is set, and the two counters
  of the record are the numbers of lines of the Add and the Delete chunks.
\<close>

lemma patch_step_truncates:
  assumes "toFile fp \<noteq> None" and "MaxDiffSize cfg < int (length (file_diff fp))"
  shows "DiffContent (last (changes (patch_step ToLower cfg tree fp w))) =
           too_large_text (int (length (file_diff fp))) \<and>
         DiffTooLarge (diffSummary (patch_step ToLower cfg tree fp w)) \<and>
         Additions (last (changes (patch_step ToLower cfg tree fp w))) = int (length (lines_of Add (Chunks fp))) \<and>
         Deletions (last (changes (patch_step ToLower cfg tree fp w))) = int (length (lines_of Delete (Chunks fp)))"
  using assms
  by (simp add: patch_step_def Let_def builder_any_counters chunk_loop_counts split: option.splits)

section \<open>Properties of the commit report\<close>

text \<open>
  C2, evaluated. A commit that deletes \<open>old.yaml\<close>, a focus file, is reported with
  \<open>TotalFocusFiles = 1\<close> while \<open>AddFocusFiles\<close>, \<open>ModifyFocusFiles\<close> and
  \<open>DeleteFocusFiles\<close> are all 0: the \<open>delete\<close> branch of the counting counts
  \<open>MatchPatternFiles\<close> only.
\<close>

theorem delete_focus_not_counted:
  "map_sum id ci_FocusStats (GetCommit ascii_ToLower sample_cfg sample_compile (Inr (repo_of delete_commit))) =
     Inr \<lparr>TotalFocusFiles = 1, AddFocusFiles = 0, ModifyFocusFiles = 0, DeleteFocusFiles = 0,
          MatchPatternFiles = 1, MatchContentFiles = 0\<rparr>"
  by code_simp

text \<open>
  C9. Once the repository is open, the commit found and its tree read, \<open>GetCommit\<close>
  returns a report. When the branch lookup fails the report's \<open>Branches\<close> is empty, when
  the tag lookup fails its \<open>Tags\<close> is empty, and when \<open>getCommitChanges\<close> returns an
  error its change list is empty and its \<open>Stats\<close> and \<open>DiffSummary\<close> are the zero
  values.
\<close>

theorem GetCommit_degrades:
  assumes "PlainOpen = Inr repo" and "lookup_commit repo = Inr commit"
      and "commit_Tree commit = Inr tree"
  shows "\<exists>ci. GetCommit ToLower cfg compile PlainOpen = Inr ci \<and>
           (snd (getBranchesContainingCommit repo (Hash commit)) \<noteq> None \<longrightarrow> Branches ci = []) \<and>
           (snd (getTagsContainingCommit repo (Hash commit)) \<noteq> None \<longrightarrow> Tags ci = []) \<and>
           (snd (snd (snd (getCommitChanges ToLower cfg commit))) \<noteq> None \<longrightarrow>
              Changes ci = [] \<and> ci_Stats ci = zero_StatsInfo \<and>
              ci_DiffSummary ci = zero_DiffSummary)"
  using assms by (simp add: GetCommit_def Let_def split: sum.split)

theorem GetCommit_degrades_witness:
  "snd (getBranchesContainingCommit broken_repo (Hash broken_commit)) =
     Some (Error ''reference storage unreadable'') \<and>
   snd (getTagsContainingCommit broken_repo (Hash broken_commit)) =
     Some (Error ''reference storage unreadable'') \<and>
   snd (snd (snd (getCommitChanges ascii_ToLower sample_cfg broken_commit))) = Some (Error ''object not found'') \<and>
   (\<exists>ci. GetCommit ascii_ToLower sample_cfg sample_compile (Inr broken_repo) = Inr ci \<and>
         Branches ci = [] \<and> Tags ci = [] \<and> Changes ci = [] \<and>
         ci_Stats ci = zero_StatsInfo \<and> ci_DiffSummary ci = zero_DiffSummary)"
proof -
  have b: "snd (getBranchesContainingCommit broken_repo (Hash broken_commit)) =
     Some (Error ''reference storage unreadable'')"
    by (simp add: getBranchesContainingCommit_def broken_repo_def)
  have t: "snd (getTagsContainingCommit broken_repo (Hash broken_commit)) =
     Some (Error ''reference storage unreadable'')"
    by (simp add: getTagsContainingCommit_def broken_repo_def)
  have c: "snd (snd (snd (getCommitChanges ascii_ToLower sample_cfg broken_commit))) = Some (Error ''object not found'')"
    by (simp add: getCommitChanges_def broken_commit_def sample_commit_def give_up_def Let_def)
  have l: "lookup_commit broken_repo = Inr broken_commit"
    by (simp add: broken_repo_def)
  have tr: "commit_Tree broken_commit = Inr sample_tree"
    by (simp add: broken_commit_def sample_commit_def)
  show ?thesis
    using b t c GetCommit_degrades [OF refl l tr, of ascii_ToLower sample_cfg sample_compile] by auto
qed

end
